theory Spec2Isabelle
  imports Main "HOL-Library.Option_ord"
begin

section \<open>Common conventions\<close>

text \<open>
  A JavaScript \<open>Date\<close> is its number of milliseconds since the epoch. Every service
  operation and route handler takes the clock reading \<open>now\<close> of the request as a
  parameter; the several \<open>new Date()\<close> of one call read that same instant.
  An optional field (\<open>x?: T\<close>) is an \<open>option\<close>. The identifier classes
  (\<open>UserId\<close>, \<open>WorkspaceId\<close>, \<open>ProjectId\<close>, \<open>NotificationId\<close>) wrap a string and
  are compared through \<open>.value\<close> everywhere, so an identifier is that string.
\<close>

type_synonym date = int

text \<open>The JavaScript idiom \<open>s || d\<close> on an optional string: absent and empty are falsy.\<close>

definition or_default :: "string option \<Rightarrow> string \<Rightarrow> string" where
  "or_default s d = (case s of None \<Rightarrow> d | Some v \<Rightarrow> if v = [] then d else v)"

section \<open>Notification domain (NotificationDomain.ts)\<close>

datatype NotificationType = EMAIL | SMS | PUSH

datatype NotificationStatus = PENDING | SENT | DELIVERED | FAILED | BOUNCED

datatype EmailTemplate =
  WORKSPACE_INVITATION | PROJECT_INVITATION | PASSWORD_RESET
  | EMAIL_VERIFICATION | WELCOME | PROJECT_SHARED

fun EmailTemplate_str :: "EmailTemplate \<Rightarrow> string" where
  "EmailTemplate_str WORKSPACE_INVITATION = ''WORKSPACE_INVITATION''"
| "EmailTemplate_str PROJECT_INVITATION = ''PROJECT_INVITATION''"
| "EmailTemplate_str PASSWORD_RESET = ''PASSWORD_RESET''"
| "EmailTemplate_str EMAIL_VERIFICATION = ''EMAIL_VERIFICATION''"
| "EmailTemplate_str WELCOME = ''WELCOME''"
| "EmailTemplate_str PROJECT_SHARED = ''PROJECT_SHARED''"

record EmailData =
  to :: "string list"
  cc :: "string list option"
  bcc :: "string list option"
  subject :: string
  template :: EmailTemplate
  templateData :: "(string \<times> string) list"
  attachments :: "string list option"

text \<open>
  The keys the service writes into \<open>Notification.metadata\<close> (a \<open>Record<string, any>\<close>):
  \<open>recipients\<close>, \<open>cc\<close>, \<open>bcc\<close>, \<open>attachments\<close> (a count), \<open>messageId\<close>, \<open>resentAt\<close>.
\<close>

record Metadata =
  recipients :: "string list option"
  md_cc :: "string list option"
  md_bcc :: "string list option"
  md_attachments :: "nat option"
  messageId :: "string option"
  resentAt :: "date option"

record Notification =
  n_id :: "string option"
  n_type :: NotificationType
  status :: NotificationStatus
  recipient :: "string option"
  n_subject :: "string option"
  content :: string
  templateId :: "EmailTemplate option"
  n_templateData :: "(string \<times> string) list option"
  metadata :: "Metadata option"
  scheduledAt :: "date option"
  sentAt :: "date option"
  deliveredAt :: "date option"
  failedAt :: "date option"
  failureReason :: "string option"
  retryCount :: nat
  maxRetries :: nat
  createdAt :: "date option"
  updatedAt :: "date option"

text \<open>
  The constructor copies every field, with \<open>retryCount = data.retryCount || 0\<close> and
  \<open>maxRetries = data.maxRetries || 3\<close>: a stored \<open>maxRetries\<close> of 0 is read as 3.
\<close>

definition Notification_new :: "Notification \<Rightarrow> Notification" where
  "Notification_new d = d\<lparr>maxRetries := (if maxRetries d = 0 then 3 else maxRetries d)\<rparr>"

definition canRetry :: "Notification \<Rightarrow> bool" where
  "canRetry n = (status n = FAILED \<and> retryCount n < maxRetries n)"

definition markAsSent :: "date \<Rightarrow> Notification \<Rightarrow> Notification" where
  "markAsSent now n = n\<lparr>status := SENT, sentAt := Some now, updatedAt := Some now\<rparr>"

definition markAsDelivered :: "date \<Rightarrow> Notification \<Rightarrow> Notification" where
  "markAsDelivered now n =
     n\<lparr>status := DELIVERED, deliveredAt := Some now, updatedAt := Some now\<rparr>"

definition markAsFailed :: "date \<Rightarrow> string \<Rightarrow> Notification \<Rightarrow> Notification" where
  "markAsFailed now reason n =
     n\<lparr>status := FAILED, failedAt := Some now, failureReason := Some reason,
       retryCount := retryCount n + 1, updatedAt := Some now\<rparr>"

text \<open>What \<open>EmailProvider.sendEmail\<close> resolves to: \<open>{success, messageId?, error?}\<close>.\<close>

record SendResult =
  success :: bool
  sr_messageId :: "string option"
  sr_error :: "string option"

section \<open>Notification repository (MongoNotificationRepository)\<close>

text \<open>
  The collection is the list of its documents in insertion order; every stored document
  carries its \<open>_id\<close> in \<open>n_id\<close>. A lookup with a string that is not a valid ObjectId
  returns \<open>null\<close> as a lookup of an absent id does, and stored ids are valid ObjectIds,
  so both are the one case "no document has this id".
\<close>

fun find_doc :: "string \<Rightarrow> Notification list \<Rightarrow> Notification option" where
  "find_doc i [] = None"
| "find_doc i (d # ds) = (if n_id d = Some i then Some d else find_doc i ds)"

definition n_findById :: "string \<Rightarrow> Notification list \<Rightarrow> Notification option" where
  "n_findById i docs = map_option Notification_new (find_doc i docs)"

text \<open>
  \<open>update(id, data)\<close> is \<open>findOneAndUpdate({_id}, {$set: {...data, updatedAt: now}})\<close>
  with \<open>id\<close> removed from the set: the first document with that id takes every field
  of \<open>data\<close>; no document with that id leaves the collection as it is.
\<close>

fun n_update :: "string \<Rightarrow> Notification \<Rightarrow> date \<Rightarrow> Notification list \<Rightarrow> Notification list" where
  "n_update i n now [] = []"
| "n_update i n now (d # ds) =
     (if n_id d = Some i then n\<lparr>n_id := Some i, updatedAt := Some now\<rparr> # ds
      else d # n_update i n now ds)"

text \<open>
  \<open>create\<close> inserts the document under the ObjectId \<open>newId\<close> that MongoDB generates and
  returns \<open>new Notification({...notification, id, createdAt, updatedAt})\<close>.
\<close>

definition n_create :: "string \<Rightarrow> date \<Rightarrow> Notification \<Rightarrow> Notification list
    \<Rightarrow> Notification \<times> Notification list" where
  "n_create newId now n docs =
     (let doc = n\<lparr>n_id := Some newId,
                   createdAt := Some (case createdAt n of None \<Rightarrow> now | Some t \<Rightarrow> t),
                   updatedAt := Some (case updatedAt n of None \<Rightarrow> now | Some t \<Rightarrow> t)\<rparr>
      in (Notification_new doc, docs @ [doc]))"

definition n_save :: "string \<Rightarrow> date \<Rightarrow> Notification \<Rightarrow> Notification list
    \<Rightarrow> Notification \<times> Notification list" where
  "n_save newId now n docs =
     (case n_id n of
        Some i \<Rightarrow>
          (let docs' = n_update i n now docs
           in (case n_findById i docs' of None \<Rightarrow> (n, docs') | Some r \<Rightarrow> (r, docs')))
      | None \<Rightarrow> n_create newId now n docs)"

text \<open>
  \<open>findForRetry(limit)\<close>: status FAILED and stored \<open>retryCount < maxRetries\<close>, oldest
  \<open>failedAt\<close> first (a missing \<open>failedAt\<close> sorts before every date), at most \<open>limit\<close>.
\<close>

definition findForRetry :: "nat \<Rightarrow> Notification list \<Rightarrow> Notification list" where
  "findForRetry limit docs =
     map Notification_new
       (take limit (sort_key failedAt
          (filter (\<lambda>d. status d = FAILED \<and> retryCount d < maxRetries d) docs)))"

section \<open>Notification service (NotificationService.ts)\<close>

text \<open>
  The state of the delivery engine: the persisted notifications and the number of calls
  made to the email provider so far. The provider is any function from the index of the
  call to its outcome, so a theorem for every \<open>provider\<close> covers every behaviour of the
  external service.
\<close>

record NState =
  notifications :: "Notification list"
  calls :: nat

record SendEmailResult =
  r_success :: bool
  r_notificationId :: "string option"
  r_error :: "string option"

definition sendEmail :: "(nat \<Rightarrow> SendResult) \<Rightarrow> date \<Rightarrow> string \<Rightarrow> EmailData \<Rightarrow> NState
    \<Rightarrow> SendEmailResult \<times> NState" where
  "sendEmail provider now newId emailData st =
     (let notification = Notification_new
            \<lparr>n_id = None, n_type = EMAIL, status = PENDING,
             recipient = (case to emailData of [] \<Rightarrow> None | r # _ \<Rightarrow> Some r),
             n_subject = Some (subject emailData),
             content = ''Template: '' @ EmailTemplate_str (template emailData),
             templateId = Some (template emailData),
             n_templateData = Some (templateData emailData),
             metadata = Some \<lparr>recipients = Some (to emailData), md_cc = cc emailData,
                               md_bcc = bcc emailData,
                               md_attachments = Some (case attachments emailData of
                                                        None \<Rightarrow> 0 | Some a \<Rightarrow> length a),
                               messageId = None, resentAt = None\<rparr>,
             scheduledAt = None, sentAt = None, deliveredAt = None, failedAt = None,
             failureReason = None, retryCount = 0, maxRetries = 0,
             createdAt = Some now, updatedAt = Some now\<rparr>;
          (savedNotification, docs1) = n_save newId now notification (notifications st);
          sendResult = provider (calls st);
          sid = (case n_id savedNotification of None \<Rightarrow> newId | Some i \<Rightarrow> i)
      in if success sendResult then
           (let sent = markAsSent now savedNotification;
                sent' = sent\<lparr>metadata := Some ((case metadata sent of
                                   None \<Rightarrow> \<lparr>recipients = None, md_cc = None, md_bcc = None,
                                             md_attachments = None, messageId = None,
                                             resentAt = None\<rparr>
                                 | Some m \<Rightarrow> m)\<lparr>messageId := sr_messageId sendResult\<rparr>)\<rparr>
            in (\<lparr>r_success = True, r_notificationId = n_id savedNotification, r_error = None\<rparr>,
                \<lparr>notifications = n_update sid sent' now docs1, calls = calls st + 1\<rparr>))
         else
           (let failed = markAsFailed now (or_default (sr_error sendResult) ''Unknown error'')
                           savedNotification
            in (\<lparr>r_success = False, r_notificationId = n_id savedNotification,
                 r_error = sr_error sendResult\<rparr>,
                \<lparr>notifications = n_update sid failed now docs1, calls = calls st + 1\<rparr>)))"

record ResendResult =
  rr_success :: bool
  rr_error :: "string option"

definition resendNotification :: "(nat \<Rightarrow> SendResult) \<Rightarrow> date \<Rightarrow> string \<Rightarrow> NState
    \<Rightarrow> ResendResult \<times> NState" where
  "resendNotification provider now notificationId st =
     (case n_findById notificationId (notifications st) of
        None \<Rightarrow> (\<lparr>rr_success = False, rr_error = Some ''Notification not found''\<rparr>, st)
      | Some notification \<Rightarrow>
          if n_type notification \<noteq> EMAIL then
            (\<lparr>rr_success = False, rr_error = Some ''Only email notifications can be resent''\<rparr>, st)
          else
            (let n1 = notification\<lparr>status := PENDING,
                                   retryCount := retryCount notification + 1,
                                   updatedAt := Some now\<rparr>;
                 docs1 = n_update notificationId n1 now (notifications st);
                 sendResult = provider (calls st)
             in if success sendResult then
                  (let sent = markAsSent now n1;
                       sent' = sent\<lparr>metadata := Some ((case metadata sent of
                                   None \<Rightarrow> \<lparr>recipients = None, md_cc = None, md_bcc = None,
                                             md_attachments = None, messageId = None,
                                             resentAt = None\<rparr>
                                 | Some m \<Rightarrow> m)\<lparr>messageId := sr_messageId sendResult,
                                               resentAt := Some now\<rparr>)\<rparr>
                   in (\<lparr>rr_success = True, rr_error = None\<rparr>,
                       \<lparr>notifications = n_update notificationId sent' now docs1,
                        calls = calls st + 1\<rparr>))
                else
                  (let failed = markAsFailed now
                                  (or_default (sr_error sendResult) ''Resend failed'') n1
                   in (\<lparr>rr_success = False, rr_error = sr_error sendResult\<rparr>,
                       \<lparr>notifications = n_update notificationId failed now docs1,
                        calls = calls st + 1\<rparr>))))"

record RetryStats =
  processed :: nat
  successful :: nat
  failed :: nat

text \<open>
  The loop of \<open>processRetries\<close> over the snapshot returned by \<open>findForRetry(50)\<close>:
  a notification that cannot be retried is skipped; the others go through
  \<open>resendNotification\<close>, which reads the record again from the store.
\<close>

fun processRetries_loop :: "(nat \<Rightarrow> SendResult) \<Rightarrow> date \<Rightarrow> Notification list
    \<Rightarrow> nat \<times> nat \<times> NState \<Rightarrow> nat \<times> nat \<times> NState" where
  "processRetries_loop provider now [] acc = acc"
| "processRetries_loop provider now (n # ns) (ok, ko, st) =
     (if \<not> canRetry n then processRetries_loop provider now ns (ok, ko, st)
      else (case n_id n of
              None \<Rightarrow> processRetries_loop provider now ns (ok, ko + 1, st)
            | Some i \<Rightarrow>
                (let (r, st') = resendNotification provider now i st
                 in if rr_success r then processRetries_loop provider now ns (ok + 1, ko, st')
                    else processRetries_loop provider now ns (ok, ko + 1, st'))))"

definition processRetries :: "(nat \<Rightarrow> SendResult) \<Rightarrow> date \<Rightarrow> NState \<Rightarrow> RetryStats \<times> NState" where
  "processRetries provider now st =
     (let failedNotifications = findForRetry 50 (notifications st);
          (ok, ko, st') = processRetries_loop provider now failedNotifications (0, 0, st)
      in (\<lparr>processed = length failedNotifications, successful = ok, failed = ko\<rparr>, st'))"

section \<open>Workspace domain (WorkspaceDomain.ts, UserDomain.ts)\<close>

datatype WorkspaceRole = OWNER | ADMIN | EDITOR | VIEWER

datatype WorkspacePlan = FREE | PRO | ENTERPRISE

datatype WorkspaceStatus = ACTIVE | SUSPENDED | INACTIVE

record WorkspaceMember =
  userId :: string
  role :: WorkspaceRole
  invitedBy :: "string option"
  joinedAt :: date
  invitedAt :: "date option"

text \<open>
  \<open>accepted?: boolean\<close> is read only for its truthiness (\<open>invite.accepted\<close>,
  \<open>!invite.accepted\<close>, \<open>invite.accepted || false\<close>), so an absent flag is \<open>False\<close>.
\<close>

record WorkspaceInvite =
  i_id :: string
  email :: string
  i_role :: WorkspaceRole
  invitedByClerkId :: string
  token :: string
  expiresAt :: date
  i_createdAt :: date
  accepted :: bool
  acceptedAt :: "date option"
  acceptedByClerkId :: "string option"

text \<open>
  The \<open>settings\<close> object of a workspace is written once at creation and carried through
  unchanged by every operation below; it is left out of the record.
\<close>

record Workspace =
  w_id :: "string option"
  name :: string
  slug :: string
  description :: "string option"
  logo :: "string option"
  ownerId :: string
  plan :: WorkspacePlan
  w_status :: WorkspaceStatus
  members :: "WorkspaceMember list"
  invites :: "WorkspaceInvite list"
  w_createdAt :: "date option"
  w_updatedAt :: "date option"

record User =
  u_id :: "string option"
  clerkId :: string
  u_name :: string
  u_email :: string

text \<open>\<open>Array.prototype.findIndex\<close>, with \<open>None\<close> for \<open>-1\<close>.\<close>

fun findIndex :: "('a \<Rightarrow> bool) \<Rightarrow> 'a list \<Rightarrow> nat option" where
  "findIndex P [] = None"
| "findIndex P (x # xs) = (if P x then Some 0 else map_option Suc (findIndex P xs))"

definition findByClerkId :: "string \<Rightarrow> User list \<Rightarrow> User option" where
  "findByClerkId c users = find (\<lambda>u. clerkId u = c) users"

definition findByEmail :: "string \<Rightarrow> User list \<Rightarrow> User option" where
  "findByEmail e users = find (\<lambda>u. u_email u = e) users"

section \<open>Workspace repository (MongoWorkspaceRepository)\<close>

text \<open>
  The collection is the list of its documents, as for notifications. The part of a
  \<open>Partial<Workspace>\<close> that the service passes to \<open>update\<close>: \<open>members\<close> and
  \<open>invites\<close>; \<open>updatedAt\<close> is always set to the time of the write.
\<close>

record WorkspacePatch =
  patch_members :: "WorkspaceMember list option"
  patch_invites :: "WorkspaceInvite list option"

fun w_findById :: "string \<Rightarrow> Workspace list \<Rightarrow> Workspace option" where
  "w_findById i [] = None"
| "w_findById i (d # ds) = (if w_id d = Some i then Some d else w_findById i ds)"

definition w_findBySlug :: "string \<Rightarrow> Workspace list \<Rightarrow> Workspace option" where
  "w_findBySlug s docs = find (\<lambda>d. slug d = s) docs"

definition apply_patch :: "WorkspacePatch \<Rightarrow> date \<Rightarrow> Workspace \<Rightarrow> Workspace" where
  "apply_patch p now d =
     d\<lparr>members := (case patch_members p of None \<Rightarrow> members d | Some m \<Rightarrow> m),
       invites := (case patch_invites p of None \<Rightarrow> invites d | Some i \<Rightarrow> i),
       w_updatedAt := Some now\<rparr>"

fun w_update_docs :: "string \<Rightarrow> WorkspacePatch \<Rightarrow> date \<Rightarrow> Workspace list \<Rightarrow> Workspace list" where
  "w_update_docs i p now [] = []"
| "w_update_docs i p now (d # ds) =
     (if w_id d = Some i then apply_patch p now d # ds else d # w_update_docs i p now ds)"

text \<open>\<open>update\<close> returns the document after the write, or \<open>null\<close> when there is none.\<close>

definition w_update :: "string \<Rightarrow> WorkspacePatch \<Rightarrow> date \<Rightarrow> Workspace list
    \<Rightarrow> Workspace option \<times> Workspace list" where
  "w_update i p now docs =
     (let docs' = w_update_docs i p now docs in (w_findById i docs', docs'))"

definition w_create :: "string \<Rightarrow> date \<Rightarrow> Workspace \<Rightarrow> Workspace list
    \<Rightarrow> Workspace \<times> Workspace list" where
  "w_create newId now w docs =
     (let doc = w\<lparr>w_id := Some newId,
                   w_createdAt := Some (case w_createdAt w of None \<Rightarrow> now | Some t \<Rightarrow> t),
                   w_updatedAt := Some (case w_updatedAt w of None \<Rightarrow> now | Some t \<Rightarrow> t)\<rparr>
      in (doc, docs @ [doc]))"

section \<open>Workspace service (WorkspaceService.ts)\<close>

text \<open>
  Every failure of the service is \<open>throw new Error(message)\<close>; the constructors name the
  messages: \<open>SlugInUse\<close> "Este slug ja esta em uso", \<open>WorkspaceNotFound\<close> "Workspace nao
  encontrado", \<open>AlreadyMember\<close> "Usuario ja e membro deste workspace",
  \<open>CannotRemoveOwner\<close> "Nao e possivel remover o proprietario do workspace",
  \<open>EmptyId\<close> "ID value cannot be empty" (the constructor of \<open>BaseId\<close>).
\<close>

datatype ws_error = SlugInUse | WorkspaceNotFound | AlreadyMember | CannotRemoveOwner | EmptyId

record CreateWorkspaceData =
  cw_name :: string
  cw_description :: "string option"
  cw_slug :: string
  cw_ownerId :: string

definition createWorkspace :: "CreateWorkspaceData \<Rightarrow> date \<Rightarrow> string \<Rightarrow> Workspace list
    \<Rightarrow> ws_error + (Workspace \<times> Workspace list)" where
  "createWorkspace data now newId docs =
     (case w_findBySlug (cw_slug data) docs of
        Some existingSlug \<Rightarrow> Inl SlugInUse
      | None \<Rightarrow>
          if cw_ownerId data = [] then Inl EmptyId
          else
            (let workspace = \<lparr>w_id = None, name = cw_name data, slug = cw_slug data,
                   description = Some (or_default (cw_description data) []), logo = None,
                   ownerId = cw_ownerId data, plan = FREE, w_status = ACTIVE,
                   members = [], invites = [],
                   w_createdAt = Some now, w_updatedAt = Some now\<rparr>;
                 (savedWorkspace, docs1) = w_create newId now workspace docs;
                 ownerMember = \<lparr>userId = cw_ownerId data, role = OWNER, invitedBy = None,
                                joinedAt = now, invitedAt = None\<rparr>;
                 members' = members savedWorkspace @ [ownerMember];
                 (r, docs2) = w_update newId
                     \<lparr>patch_members = Some members', patch_invites = None\<rparr> now docs1
             in Inr (savedWorkspace\<lparr>members := members'\<rparr>, docs2)))"

definition removeMember :: "string \<Rightarrow> string \<Rightarrow> date \<Rightarrow> Workspace list
    \<Rightarrow> ws_error + (Workspace option \<times> Workspace list)" where
  "removeMember workspaceId uid now docs =
     (case w_findById workspaceId docs of
        None \<Rightarrow> Inl WorkspaceNotFound
      | Some workspace \<Rightarrow>
          if ownerId workspace = uid then Inl CannotRemoveOwner
          else Inr (w_update workspaceId
                 \<lparr>patch_members = Some (filter (\<lambda>m. userId m \<noteq> uid) (members workspace)),
                  patch_invites = None\<rparr> now docs))"

definition updateInvites :: "string \<Rightarrow> WorkspaceInvite list \<Rightarrow> date \<Rightarrow> Workspace list
    \<Rightarrow> Workspace option \<times> Workspace list" where
  "updateInvites workspaceId invs now docs =
     w_update workspaceId \<lparr>patch_members = None, patch_invites = Some invs\<rparr> now docs"

definition addMemberByClerkId :: "string \<Rightarrow> string \<Rightarrow> WorkspaceRole \<Rightarrow> string \<Rightarrow> date
    \<Rightarrow> Workspace list \<Rightarrow> ws_error + (Workspace option \<times> Workspace list)" where
  "addMemberByClerkId workspaceId clerk r invitedByClerk now docs =
     (case w_findById workspaceId docs of
        None \<Rightarrow> Inl WorkspaceNotFound
      | Some workspace \<Rightarrow>
          (case find (\<lambda>m. userId m = clerk) (members workspace) of
             Some existingMember \<Rightarrow> Inl AlreadyMember
           | None \<Rightarrow>
               if clerk = [] then Inl EmptyId
               else
                 (let invitedByUserId = (if invitedByClerk = [] then None else Some invitedByClerk);
                      newMember = \<lparr>userId = clerk, role = r, invitedBy = invitedByUserId,
                                   joinedAt = now,
                                   invitedAt = (case invitedByUserId of None \<Rightarrow> None
                                                | Some x \<Rightarrow> Some now)\<rparr>
                  in Inr (w_update workspaceId
                        \<lparr>patch_members = Some (members workspace @ [newMember]),
                         patch_invites = None\<rparr> now docs))))"

section \<open>Invite acceptance route (POST .../invite/accept)\<close>

text \<open>
  The responses of the handler, named after what they report. Status and message in the
  source: \<open>Unauthorized\<close> 401 "Nao autorizado"; \<open>TokenRequired\<close> 400 "Token e obrigatorio";
  \<open>UserNotFound\<close> 404 "Usuario nao encontrado"; \<open>NoWorkspace\<close> 404 "Workspace nao
  encontrado"; \<open>InviteNotFound\<close> 404 "Convite nao encontrado"; \<open>InviteAlreadyAccepted\<close>
  400 "Convite ja foi aceito"; \<open>InviteExpired\<close> 400 "Convite expirado"; \<open>EmailMismatch\<close>
  400 "Email do usuario nao confere com o convite"; \<open>IsAlreadyMember\<close> 400 "Usuario ja e
  membro deste workspace"; \<open>AddMemberFailed\<close> 500 "Erro ao adicionar membro";
  \<open>WorkspaceVanished\<close> 500 "Erro interno - workspace nao encontrado"; \<open>ServiceFailure e\<close>
  500 with the message of the error the service threw; \<open>InviteAccepted\<close> 200
  \<open>success: true\<close>.

  The handler returns its response and the trace of the store: the state of the
  collection after each write it issued, in order (no write, no entry).
\<close>

datatype accept_response =
  Unauthorized | TokenRequired | UserNotFound | NoWorkspace | InviteNotFound
  | InviteAlreadyAccepted | InviteExpired | EmailMismatch | IsAlreadyMember
  | AddMemberFailed | WorkspaceVanished | ServiceFailure ws_error | InviteAccepted

text \<open>
  The \<open>try\<close> block of the handler (source lines 104-161): add the member, then read the
  workspace again and write the invite list with the accepted invite.
\<close>

definition accept_commit :: "string \<Rightarrow> string \<Rightarrow> string \<Rightarrow> WorkspaceInvite \<Rightarrow> date
    \<Rightarrow> Workspace list \<Rightarrow> accept_response \<times> Workspace list list" where
  "accept_commit workspaceId clerk tok invite now docs =
     (case addMemberByClerkId workspaceId clerk (i_role invite) (invitedByClerkId invite)
             now docs of
        Inl e \<Rightarrow> (ServiceFailure e, [])
      | Inr (None, docs1) \<Rightarrow> (AddMemberFailed, [docs1])
      | Inr (Some updatedWorkspace, docs1) \<Rightarrow>
          (let updatedInvite = invite\<lparr>accepted := True, acceptedAt := Some now,
                                      acceptedByClerkId := Some clerk\<rparr>
           in (case w_findById workspaceId docs1 of
                 None \<Rightarrow> (WorkspaceVanished, [docs1])
               | Some freshWorkspace \<Rightarrow>
                   (case findIndex (\<lambda>inv. token inv = tok) (invites freshWorkspace) of
                      None \<Rightarrow> (InviteAccepted, [docs1])
                    | Some freshInviteIndex \<Rightarrow>
                        (InviteAccepted,
                         [docs1,
                          snd (updateInvites workspaceId
                                 ((invites freshWorkspace)[freshInviteIndex := updatedInvite])
                                 now docs1)])))))"

text \<open>The checks on the invite (source lines 58-102), then the \<open>try\<close> block.\<close>

definition accept_checks :: "string \<Rightarrow> string \<Rightarrow> string \<Rightarrow> string \<Rightarrow> User
    \<Rightarrow> Workspace \<Rightarrow> date \<Rightarrow> Workspace list \<Rightarrow> accept_response \<times> Workspace list list" where
  "accept_checks workspaceId clerk tok uid user workspace now docs =
     (case findIndex (\<lambda>inv. token inv = tok) (invites workspace) of
        None \<Rightarrow> (InviteNotFound, [])
      | Some inviteIndex \<Rightarrow>
          (let invite = invites workspace ! inviteIndex
           in if accepted invite then (InviteAlreadyAccepted, [])
              else if expiresAt invite < now then (InviteExpired, [])
              else if u_email user \<noteq> email invite then (EmailMismatch, [])
              else if list_ex (\<lambda>m. userId m = clerk) (members workspace)
                        \<or> ownerId workspace = uid
                   then (IsAlreadyMember, [])
              else accept_commit workspaceId clerk tok invite now docs))"

definition acceptInvite_POST :: "string option \<Rightarrow> string \<Rightarrow> string \<Rightarrow> date \<Rightarrow> User list
    \<Rightarrow> Workspace list \<Rightarrow> accept_response \<times> Workspace list list" where
  "acceptInvite_POST auth workspaceId tok now users docs =
     (case auth of
        None \<Rightarrow> (Unauthorized, [])
      | Some clerk \<Rightarrow>
          if clerk = [] then (Unauthorized, [])
          else if tok = [] then (TokenRequired, [])
          else (case findByClerkId clerk users of
                  None \<Rightarrow> (UserNotFound, [])
                | Some user \<Rightarrow>
                    (case u_id user of
                       None \<Rightarrow> (UserNotFound, [])
                     | Some uid \<Rightarrow>
                         (case w_findById workspaceId docs of
                            None \<Rightarrow> (NoWorkspace, [])
                          | Some workspace \<Rightarrow>
                              accept_checks workspaceId clerk tok uid user workspace now docs))))"

section \<open>Invitation route (POST .../members/invite-multiple)\<close>

text \<open>
  The loop over the addresses and the write that follows it, for a request that passed
  the handler's validation (authenticated inviter, access to the workspace, a non-empty
  list of well-formed addresses, a valid role, an existing workspace).

  \<open>generateInviteToken()\<close> is random: \<open>tokens j\<close> is what its \<open>j\<close>-th call returns.
  \<open>mail k\<close> is what the \<open>k\<close>-th call of \<open>notificationService.sendEmail\<close> in the request
  resolves to. \<open>expiresAt.setDate(expiresAt.getDate() + 7)\<close> moves the clock reading
  seven days ahead, 604800000 ms on a server clock without daylight-saving shifts.

  The entries of \<open>results.failed\<close> carry a message: \<open>MemberAlready\<close> "Usuario ja e membro
  deste workspace", \<open>PendingInviteExists\<close> "Convite pendente ja existe para este email",
  \<open>MailFailed msg\<close> the error of the mail service or "Falha ao enviar email".
\<close>

datatype invite_failure = MemberAlready | PendingInviteExists | MailFailed string

record InviteResults =
  ir_success :: "string list"
  ir_failed :: "(string \<times> invite_failure) list"

definition sevenDays :: int where
  "sevenDays = 7 * 24 * 60 * 60 * 1000"

fun invite_loop :: "(nat \<Rightarrow> string) \<Rightarrow> (nat \<Rightarrow> SendEmailResult) \<Rightarrow> string \<Rightarrow> WorkspaceRole
    \<Rightarrow> date \<Rightarrow> User list \<Rightarrow> Workspace \<Rightarrow> string list
    \<Rightarrow> InviteResults \<times> WorkspaceInvite list \<Rightarrow> InviteResults \<times> WorkspaceInvite list" where
  "invite_loop tokens mail clerk r now users workspace [] acc = acc"
| "invite_loop tokens mail clerk r now users workspace (addr # rest) (results, invitesToCreate) =
     (let existingUser = findByEmail addr users;
          isMember = (case existingUser of
                        None \<Rightarrow> False
                      | Some u \<Rightarrow> list_ex (\<lambda>m. Some (userId m) = u_id u) (members workspace)
                                  \<or> Some (ownerId workspace) = u_id u)
      in if isMember then
           invite_loop tokens mail clerk r now users workspace rest
             (results\<lparr>ir_failed := ir_failed results @ [(addr, MemberAlready)]\<rparr>, invitesToCreate)
         else
           (case find (\<lambda>invite. email invite = addr \<and> \<not> accepted invite \<and> expiresAt invite > now)
                   (invites workspace) of
              Some existingInvite \<Rightarrow>
                invite_loop tokens mail clerk r now users workspace rest
                  (results\<lparr>ir_failed := ir_failed results @ [(addr, PendingInviteExists)]\<rparr>,
                   invitesToCreate)
            | None \<Rightarrow>
                (let k = length invitesToCreate;
                     invite = \<lparr>i_id = tokens (2 * k + 1), email = addr, i_role = r,
                               invitedByClerkId = clerk, token = tokens (2 * k),
                               expiresAt = now + sevenDays, i_createdAt = now,
                               accepted = False, acceptedAt = None, acceptedByClerkId = None\<rparr>;
                     emailResult = mail k
                 in invite_loop tokens mail clerk r now users workspace rest
                      (if r_success emailResult
                       then results\<lparr>ir_success := ir_success results @ [addr]\<rparr>
                       else results\<lparr>ir_failed := ir_failed results @
                              [(addr, MailFailed (or_default (r_error emailResult)
                                                    ''Falha ao enviar email''))]\<rparr>,
                       invitesToCreate @ [invite]))))"

definition inviteMultiple_POST :: "(nat \<Rightarrow> string) \<Rightarrow> (nat \<Rightarrow> SendEmailResult) \<Rightarrow> string
    \<Rightarrow> string \<Rightarrow> string list \<Rightarrow> WorkspaceRole \<Rightarrow> date \<Rightarrow> User list \<Rightarrow> Workspace list
    \<Rightarrow> (InviteResults \<times> Workspace list) option" where
  "inviteMultiple_POST tokens mail clerk workspaceId emails r now users docs =
     (case w_findById workspaceId docs of
        None \<Rightarrow> None
      | Some workspace \<Rightarrow>
          (let (results, invitesToCreate) =
                 invite_loop tokens mail clerk r now users workspace emails
                   (\<lparr>ir_success = [], ir_failed = []\<rparr>, [])
           in Some (results,
                if invitesToCreate \<noteq> []
                then snd (updateInvites workspaceId (invites workspace @ invitesToCreate) now docs)
                else docs)))"

section \<open>Project domain and repository (ProjectDomain.ts, MongoProjectRepository)\<close>

datatype ProjectStatus = DRAFT | PUBLISHED | ARCHIVED

datatype ProjectVisibility = PUBLIC | PRIVATE

record ProjectMember =
  pm_userId :: string
  pm_role :: WorkspaceRole
  addedAt :: date
  addedBy :: string

text \<open>
  One record serves for the stored document (\<open>MongoProject\<close>) and for the domain object
  (\<open>Project\<close>); \<open>deployments\<close> and \<open>settings\<close>, which no operation below reads or changes,
  are left out. In a document \<open>p_members\<close> is the persisted \<open>members\<close> field.
\<close>

record Project =
  p_id :: "string option"
  p_name :: string
  p_slug :: string
  p_description :: "string option"
  thumbnail :: "string option"
  workspaceId :: string
  createdBy :: string
  p_status :: ProjectStatus
  visibility :: ProjectVisibility
  p_members :: "ProjectMember list option"
  p_createdAt :: "date option"
  p_updatedAt :: "date option"
  publishedAt :: "date option"

text \<open>
  The constructor: \<open>members\<close> is set, to \<open>data.members || []\<close>, only for a PRIVATE
  project; for a PUBLIC one the field stays undefined whatever \<open>data.members\<close> holds.
\<close>

definition Project_new :: "Project \<Rightarrow> Project" where
  "Project_new d =
     (if visibility d = PRIVATE
      then d\<lparr>p_members := Some (case p_members d of None \<Rightarrow> [] | Some m \<Rightarrow> m)\<rparr>
      else d\<lparr>p_members := None\<rparr>)"

fun p_find_doc :: "string \<Rightarrow> Project list \<Rightarrow> Project option" where
  "p_find_doc i [] = None"
| "p_find_doc i (d # ds) = (if p_id d = Some i then Some d else p_find_doc i ds)"

text \<open>\<open>findById\<close> and \<open>findAll\<close> build domain objects with \<open>mapMongoToDomain\<close>.\<close>

definition p_findById :: "string \<Rightarrow> Project list \<Rightarrow> Project option" where
  "p_findById i docs = map_option Project_new (p_find_doc i docs)"

definition p_findAll :: "Project list \<Rightarrow> Project list" where
  "p_findAll docs = map Project_new docs"

text \<open>
  The keys of the \<open>Partial<Project>\<close> that the service passes to \<open>update\<close>. A key is
  absent (\<open>None\<close>) or present with its value; \<open>description\<close> may be present with the
  value \<open>undefined\<close>, which \<open>$set\<close> stores as null. \<open>$set\<close> writes the keys that are
  present and leaves every other field of the document as it is.
\<close>

record ProjectPatch =
  pp_name :: "string option"
  pp_description :: "string option option"
  pp_visibility :: "ProjectVisibility option"
  pp_slug :: "string option"
  pp_members :: "ProjectMember list option"

definition p_apply_patch :: "ProjectPatch \<Rightarrow> date \<Rightarrow> Project \<Rightarrow> Project" where
  "p_apply_patch p now d =
     d\<lparr>p_name := (case pp_name p of None \<Rightarrow> p_name d | Some v \<Rightarrow> v),
       p_description := (case pp_description p of None \<Rightarrow> p_description d | Some v \<Rightarrow> v),
       visibility := (case pp_visibility p of None \<Rightarrow> visibility d | Some v \<Rightarrow> v),
       p_slug := (case pp_slug p of None \<Rightarrow> p_slug d | Some v \<Rightarrow> v),
       p_members := (case pp_members p of None \<Rightarrow> p_members d | Some v \<Rightarrow> Some v),
       p_updatedAt := Some now\<rparr>"

fun p_update_docs :: "string \<Rightarrow> ProjectPatch \<Rightarrow> date \<Rightarrow> Project list \<Rightarrow> Project list" where
  "p_update_docs i p now [] = []"
| "p_update_docs i p now (d # ds) =
     (if p_id d = Some i then p_apply_patch p now d # ds else d # p_update_docs i p now ds)"

definition p_update :: "string \<Rightarrow> ProjectPatch \<Rightarrow> date \<Rightarrow> Project list
    \<Rightarrow> Project option \<times> Project list" where
  "p_update i p now docs =
     (let docs' = p_update_docs i p now docs in (p_findById i docs', docs'))"

section \<open>Project service (ProjectService.ts)\<close>

datatype p_error = NOT_FOUND | ACCESS_DENIED | SLUG_EXISTS | VALIDATION_ERROR | INTERNAL_ERROR

text \<open>\<open>String.prototype.trim\<close> on the ASCII white space and line terminators.\<close>

definition is_space :: "char \<Rightarrow> bool" where
  "is_space c = (c = CHR '' '' \<or> c = CHR 0x09 \<or> c = CHR 0x0A \<or> c = CHR 0x0B
                 \<or> c = CHR 0x0C \<or> c = CHR 0x0D)"

definition trim :: "string \<Rightarrow> string" where
  "trim s = rev (dropWhile is_space (rev (dropWhile is_space s)))"

record UpdateProjectData =
  up_name :: "string option"
  up_description :: "string option"
  up_visibility :: "ProjectVisibility option"
  up_slug :: "string option"

definition isSlugAvailable :: "string \<Rightarrow> string option \<Rightarrow> Project list \<Rightarrow> bool" where
  "isSlugAvailable s excludeProjectId docs =
     (case find (\<lambda>p. p_slug p = s) (p_findAll docs) of
        None \<Rightarrow> True
      | Some existingProject \<Rightarrow>
          (case excludeProjectId of
             None \<Rightarrow> False
           | Some x \<Rightarrow> x \<noteq> [] \<and> p_id existingProject = Some x))"

definition updateProject :: "string \<Rightarrow> string \<Rightarrow> UpdateProjectData \<Rightarrow> date \<Rightarrow> Project list
    \<Rightarrow> (p_error + Project) \<times> Project list" where
  "updateProject projectId uid data now docs =
     (case p_findById projectId docs of
        None \<Rightarrow> (Inl NOT_FOUND, docs)
      | Some existingProject \<Rightarrow>
          if createdBy existingProject \<noteq> uid then (Inl ACCESS_DENIED, docs)
          else if (case up_slug data of
                     None \<Rightarrow> False
                   | Some s \<Rightarrow> s \<noteq> [] \<and> s \<noteq> p_slug existingProject
                              \<and> \<not> isSlugAvailable s (Some projectId) docs)
               then (Inl SLUG_EXISTS, docs)
          else if (case up_name data of None \<Rightarrow> False | Some n \<Rightarrow> trim n = [])
               then (Inl VALIDATION_ERROR, docs)
          else
            (let updateData =
                   \<lparr>pp_name = map_option trim (up_name data),
                    pp_description = map_option (\<lambda>d. if trim d = [] then None else Some (trim d))
                                       (up_description data),
                    pp_visibility = up_visibility data,
                    pp_slug = (case up_slug data of None \<Rightarrow> None
                               | Some s \<Rightarrow> if s = [] then None else Some s),
                    pp_members = None\<rparr>;
                 (updatedProject, docs') = p_update projectId updateData now docs
             in (case updatedProject of
                   None \<Rightarrow> (Inl INTERNAL_ERROR, docs')
                 | Some p \<Rightarrow> (Inr p, docs'))))"

text \<open>
  \<open>getEffectiveMembers\<close> reads the project collection and, for a project that is not
  PRIVATE, the workspace collection.
\<close>

definition getEffectiveMembers :: "string \<Rightarrow> date \<Rightarrow> Project list \<Rightarrow> Workspace list
    \<Rightarrow> p_error + ProjectMember list" where
  "getEffectiveMembers projectId now pdocs wdocs =
     (case p_findById projectId pdocs of
        None \<Rightarrow> Inl NOT_FOUND
      | Some project \<Rightarrow>
          if visibility project = PRIVATE
          then Inr (case p_members project of None \<Rightarrow> [] | Some m \<Rightarrow> m)
          else
            (case w_findById (workspaceId project) wdocs of
               None \<Rightarrow> Inr []
             | Some workspace \<Rightarrow>
                 (let ms = map (\<lambda>workspaceMember.
                                  \<lparr>pm_userId = userId workspaceMember,
                                   pm_role = role workspaceMember,
                                   addedAt = joinedAt workspaceMember,
                                   addedBy = ownerId workspace\<rparr>) (members workspace)
                  in (case find (\<lambda>m. pm_userId m = ownerId workspace) ms of
                        Some ownerInMembers \<Rightarrow> Inr ms
                      | None \<Rightarrow>
                          Inr (\<lparr>pm_userId = ownerId workspace, pm_role = OWNER,
                                addedAt = (case w_createdAt workspace of
                                             None \<Rightarrow> now | Some t \<Rightarrow> t),
                                addedBy = ownerId workspace\<rparr> # ms)))))"

section \<open>Concrete scenarios\<close>

text \<open>The states and inputs at which witnesses and counterexamples are evaluated.\<close>

subsection \<open>Notifications\<close>

definition ex_failed :: Notification where
  "ex_failed = \<lparr>n_id = Some ''n1'', n_type = EMAIL, status = FAILED,
       recipient = Some ''a@x.com'', n_subject = Some ''Hi'', content = ''Template: WELCOME'',
       templateId = Some WELCOME, n_templateData = Some [], metadata = None,
       scheduledAt = None, sentAt = None, deliveredAt = None, failedAt = Some 5,
       failureReason = Some ''boom'', retryCount = 2, maxRetries = 3,
       createdAt = Some 1, updatedAt = Some 5\<rparr>"

definition always_fail :: "nat \<Rightarrow> SendResult" where
  "always_fail k = \<lparr>success = False, sr_messageId = None, sr_error = Some ''smtp down''\<rparr>"

text \<open>A provider that fails on its first four calls and delivers from the fifth on.\<close>

definition fail_four_times :: "nat \<Rightarrow> SendResult" where
  "fail_four_times k =
     (if k < 4 then \<lparr>success = False, sr_messageId = None, sr_error = Some ''smtp down''\<rparr>
      else \<lparr>success = True, sr_messageId = Some ''msg-5'', sr_error = None\<rparr>)"

definition ex_mail :: EmailData where
  "ex_mail = \<lparr>to = [''a@x.com''], cc = None, bcc = None, subject = ''Hi'',
               template = WELCOME, templateData = [], attachments = None\<rparr>"

text \<open>
  Scenario E of the specification: one \<open>sendEmail\<close> that fails, then three
  \<open>resendNotification\<close> calls that fail.
\<close>

definition scenarioE_0 :: NState where
  "scenarioE_0 = snd (sendEmail fail_four_times 10 ''n1'' ex_mail \<lparr>notifications = [], calls = 0\<rparr>)"

definition scenarioE_1 :: NState where
  "scenarioE_1 = snd (resendNotification fail_four_times 20 ''n1'' scenarioE_0)"

definition scenarioE_2 :: NState where
  "scenarioE_2 = snd (resendNotification fail_four_times 30 ''n1'' scenarioE_1)"

definition scenarioE_3 :: NState where
  "scenarioE_3 = snd (resendNotification fail_four_times 40 ''n1'' scenarioE_2)"

subsection \<open>Workspaces\<close>

definition ex_users :: "User list" where
  "ex_users =
     [\<lparr>u_id = Some ''u1'', clerkId = ''user_1'', u_name = ''Ann'', u_email = ''a@x.com''\<rparr>,
      \<lparr>u_id = Some ''u2'', clerkId = ''user_2'', u_name = ''Bob'', u_email = ''b@x.com''\<rparr>]"

definition ex_create :: CreateWorkspaceData where
  "ex_create = \<lparr>cw_name = ''Acme'', cw_description = None, cw_slug = ''acme'',
                 cw_ownerId = ''user_1''\<rparr>"

definition ex_owner_row :: WorkspaceMember where
  "ex_owner_row = \<lparr>userId = ''user_1'', role = OWNER, invitedBy = None, joinedAt = 100,
                    invitedAt = None\<rparr>"

definition ex_invite :: WorkspaceInvite where
  "ex_invite = \<lparr>i_id = ''i1'', email = ''b@x.com'', i_role = EDITOR,
                 invitedByClerkId = ''user_1'', token = ''tok1'', expiresAt = 604800200,
                 i_createdAt = 200, accepted = False, acceptedAt = None,
                 acceptedByClerkId = None\<rparr>"

definition ex_ws :: Workspace where
  "ex_ws = \<lparr>w_id = Some ''w1'', name = ''Acme'', slug = ''acme'', description = Some [],
             logo = None, ownerId = ''user_1'', plan = FREE, w_status = ACTIVE,
             members = [ex_owner_row], invites = [ex_invite],
             w_createdAt = Some 100, w_updatedAt = Some 200\<rparr>"

definition ex_bob_row :: WorkspaceMember where
  "ex_bob_row = \<lparr>userId = ''user_2'', role = EDITOR, invitedBy = Some ''user_1'',
                  joinedAt = 500, invitedAt = Some 500\<rparr>"

definition ex_after_add :: "Workspace list" where
  "ex_after_add = [ex_ws\<lparr>members := [ex_owner_row, ex_bob_row], w_updatedAt := Some 500\<rparr>]"

definition ex_after_accept :: "Workspace list" where
  "ex_after_accept =
     [ex_ws\<lparr>members := [ex_owner_row, ex_bob_row],
            invites := [ex_invite\<lparr>accepted := True, acceptedAt := Some 500,
                                  acceptedByClerkId := Some ''user_2''\<rparr>],
            w_updatedAt := Some 500\<rparr>]"

definition ex_tokens :: "nat \<Rightarrow> string" where
  "ex_tokens j = (if j = 0 then ''tok2'' else ''i2'')"

definition ex_mail_ok :: "nat \<Rightarrow> SendEmailResult" where
  "ex_mail_ok k = \<lparr>r_success = True, r_notificationId = Some ''n9'', r_error = None\<rparr>"

subsection \<open>Projects\<close>

definition ex_pm :: ProjectMember where
  "ex_pm = \<lparr>pm_userId = ''user_2'', pm_role = EDITOR, addedAt = 50, addedBy = ''user_1''\<rparr>"

definition ex_project :: Project where
  "ex_project = \<lparr>p_id = Some ''p1'', p_name = ''Site'', p_slug = ''site'',
       p_description = None, thumbnail = None, workspaceId = ''w1'', createdBy = ''user_1'',
       p_status = DRAFT, visibility = PRIVATE, p_members = Some [ex_pm],
       p_createdAt = Some 40, p_updatedAt = Some 50, publishedAt = None\<rparr>"

definition set_visibility :: "ProjectVisibility \<Rightarrow> UpdateProjectData" where
  "set_visibility v = \<lparr>up_name = None, up_description = None, up_visibility = Some v,
                        up_slug = None\<rparr>"

definition made_public :: "Project list" where
  "made_public = snd (updateProject ''p1'' ''user_1'' (set_visibility PUBLIC) 60 [ex_project])"


text \<open>
  A workspace whose member list has no row for its owner Ann, who then accepts an invite
  sent to her address.
\<close>

definition ex_ws_no_owner_row :: Workspace where
  "ex_ws_no_owner_row = \<lparr>w_id = Some ''w1'', name = ''Acme'', slug = ''acme'',
       description = Some [], logo = None, ownerId = ''user_1'', plan = FREE,
       w_status = ACTIVE, members = [],
       invites = [\<lparr>i_id = ''i0'', email = ''a@x.com'', i_role = ADMIN,
                   invitedByClerkId = ''user_1'', token = ''tok0'', expiresAt = 604800250,
                   i_createdAt = 250, accepted = False, acceptedAt = None,
                   acceptedByClerkId = None\<rparr>],
       w_createdAt = Some 100, w_updatedAt = Some 250\<rparr>"

definition owner_joined :: "Workspace list" where
  "owner_joined =
     last (snd (acceptInvite_POST (Some ''user_1'') ''w1'' ''tok0'' 300 ex_users
                  [ex_ws_no_owner_row]))"

section \<open>Properties of the notification delivery engine\<close>

lemma find_doc_n_update:
  "find_doc i (n_update i n now docs) =
     (case find_doc i docs of None \<Rightarrow> None
      | Some d \<Rightarrow> Some (n\<lparr>n_id := Some i, updatedAt := Some now\<rparr>))"
  by (induction docs) auto

lemma find_doc_n_update_other:
  "j \<noteq> i \<Longrightarrow> find_doc j (n_update i n now docs) = find_doc j docs"
  by (induction docs) auto

lemma find_doc_append_fresh:
  "find_doc i docs = None \<Longrightarrow> n_id d = Some i \<Longrightarrow> find_doc i (docs @ [d]) = Some d"
  by (induction docs) auto

lemma n_findById_n_update:
  "n_findById i docs = Some d \<Longrightarrow>
   n_findById i (n_update i n now docs) =
     Some (Notification_new (n\<lparr>n_id := Some i, updatedAt := Some now\<rparr>))"
  by (auto simp: n_findById_def find_doc_n_update split: option.splits)

lemmas notification_eval =
  sendEmail_def resendNotification_def n_save_def n_create_def n_findById_def
  Notification_new_def markAsFailed_def markAsSent_def or_default_def Let_def
  fail_four_times_def always_fail_def ex_mail_def ex_failed_def

lemma scenarioE_0_value:
  "scenarioE_0 = \<lparr>notifications =
     [\<lparr>n_id = Some ''n1'', n_type = EMAIL, status = FAILED, recipient = Some ''a@x.com'',
       n_subject = Some ''Hi'', content = ''Template: WELCOME'', templateId = Some WELCOME,
       n_templateData = Some [],
       metadata = Some \<lparr>recipients = Some [''a@x.com''], md_cc = None, md_bcc = None,
                         md_attachments = Some 0, messageId = None, resentAt = None\<rparr>,
       scheduledAt = None, sentAt = None, deliveredAt = None, failedAt = Some 10,
       failureReason = Some ''smtp down'', retryCount = 1, maxRetries = 3,
       createdAt = Some 10, updatedAt = Some 10\<rparr>],
     calls = 1\<rparr>"
  unfolding scenarioE_0_def by (simp add: notification_eval)

lemma scenarioE_3_value:
  "scenarioE_3 = \<lparr>notifications =
     [\<lparr>n_id = Some ''n1'', n_type = EMAIL, status = FAILED, recipient = Some ''a@x.com'',
       n_subject = Some ''Hi'', content = ''Template: WELCOME'', templateId = Some WELCOME,
       n_templateData = Some [],
       metadata = Some \<lparr>recipients = Some [''a@x.com''], md_cc = None, md_bcc = None,
                         md_attachments = Some 0, messageId = None, resentAt = None\<rparr>,
       scheduledAt = None, sentAt = None, deliveredAt = None, failedAt = Some 40,
       failureReason = Some ''smtp down'', retryCount = 7, maxRetries = 3,
       createdAt = Some 10, updatedAt = Some 40\<rparr>],
     calls = 4\<rparr>"
  unfolding scenarioE_3_def scenarioE_2_def scenarioE_1_def scenarioE_0_value
  by (simp add: notification_eval)

text \<open>
  C9. \<open>sendEmail\<close> returns a result for every input and every outcome of the provider; it
  has no failure branch of its own. The notification it stored under the new id records
  the outcome: when the provider reports success the result has \<open>success = true\<close> and the
  record is SENT with the provider's message id in its metadata; when the provider reports
  failure the result has \<open>success = false\<close> with the provider's error, and the record is
  FAILED with the failure reason (the provider's error, or "Unknown error" when it gave
  none) and a retry count of 1. \<open>newId\<close> is the ObjectId MongoDB generates, hence fresh.
\<close>

theorem sendEmail_records_provider_outcome:
  assumes fresh: "find_doc newId (notifications st) = None"
  shows "r_notificationId (fst (sendEmail provider now newId emailData st)) = Some newId
       \<and> calls (snd (sendEmail provider now newId emailData st)) = calls st + 1
       \<and> (\<exists>n. n_findById newId (notifications (snd (sendEmail provider now newId emailData st)))
                 = Some n
            \<and> (if success (provider (calls st))
                then r_success (fst (sendEmail provider now newId emailData st))
                   \<and> status n = SENT
                   \<and> map_option messageId (metadata n)
                       = Some (sr_messageId (provider (calls st)))
                else \<not> r_success (fst (sendEmail provider now newId emailData st))
                   \<and> r_error (fst (sendEmail provider now newId emailData st))
                       = sr_error (provider (calls st))
                   \<and> status n = FAILED
                   \<and> failureReason n
                       = Some (or_default (sr_error (provider (calls st))) ''Unknown error'')
                   \<and> retryCount n = 1))"
proof -
  have a: "\<And>d. n_id d = Some newId \<Longrightarrow> find_doc newId (notifications st @ [d]) = Some d"
    using fresh by (rule find_doc_append_fresh)
  show ?thesis
    by (cases "success (provider (calls st))")
       (simp_all add: sendEmail_def n_save_def n_create_def Let_def n_findById_def
          find_doc_n_update a Notification_new_def markAsSent_def markAsFailed_def)
qed

text \<open>The theorem at the first send of scenario E, where the provider fails.\<close>

theorem sendEmail_records_provider_outcome_witness:
  "find_doc ''n1'' (notifications \<lparr>notifications = [], calls = 0\<rparr>) = None
   \<and> \<not> success (fail_four_times 0)
   \<and> \<not> r_success (fst (sendEmail fail_four_times 10 ''n1'' ex_mail
                         \<lparr>notifications = [], calls = 0\<rparr>))
   \<and> (\<exists>n. n_findById ''n1'' (notifications (snd (sendEmail fail_four_times 10 ''n1'' ex_mail
                         \<lparr>notifications = [], calls = 0\<rparr>))) = Some n
          \<and> status n = FAILED \<and> failureReason n = Some ''smtp down'')"
  using sendEmail_records_provider_outcome
          [of "''n1''" "\<lparr>notifications = [], calls = 0\<rparr>" fail_four_times 10 ex_mail]
  by (auto simp add: fail_four_times_def or_default_def)

text \<open>
  C10. A resend whose attempt fails at the provider raises the stored \<open>retryCount\<close> by
  exactly 2: the increment before the attempt and the one inside \<open>markAsFailed\<close>. The
  record is the stored EMAIL notification \<open>n\<close>; afterwards it is FAILED with
  \<open>retryCount n + 2\<close>.
\<close>

theorem resendNotification_failure_adds_two:
  assumes "n_findById nid (notifications st) = Some n"
    and "n_type n = EMAIL"
    and "\<not> success (provider (calls st))"
  shows "\<exists>n'. n_findById nid (notifications (snd (resendNotification provider now nid st))) = Some n'
            \<and> retryCount n' = retryCount n + 2 \<and> status n' = FAILED"
proof -
  let ?n1 = "n\<lparr>status := PENDING, retryCount := retryCount n + 1, updatedAt := Some now\<rparr>"
  have f1: "n_findById nid (n_update nid ?n1 now (notifications st)) =
      Some (Notification_new (?n1\<lparr>n_id := Some nid, updatedAt := Some now\<rparr>))"
    using assms(1) by (rule n_findById_n_update)
  show ?thesis
    using assms f1
    by (simp add: resendNotification_def Let_def n_findById_n_update markAsFailed_def
          Notification_new_def)
qed

text \<open>The theorem at a record with \<open>retryCount = 2\<close>: one failed resend leaves it at 4.\<close>

theorem resendNotification_failure_adds_two_witness:
  "n_findById ''n1'' (notifications \<lparr>notifications = [ex_failed], calls = 0\<rparr>) = Some ex_failed
   \<and> n_type ex_failed = EMAIL \<and> retryCount ex_failed = 2
   \<and> \<not> success (always_fail 0)
   \<and> (\<exists>n'. n_findById ''n1'' (notifications (snd (resendNotification always_fail 10 ''n1''
                 \<lparr>notifications = [ex_failed], calls = 0\<rparr>))) = Some n'
          \<and> retryCount n' = 4 \<and> status n' = FAILED)"
  using resendNotification_failure_adds_two
          [of "''n1''" "\<lparr>notifications = [ex_failed], calls = 0\<rparr>" ex_failed always_fail 10]
  by (auto simp add: n_findById_def Notification_new_def ex_failed_def always_fail_def)

lemma resendNotification_other:
  "j \<noteq> i \<Longrightarrow> find_doc i (notifications (snd (resendNotification provider now j st)))
     = find_doc i (notifications st)"
  by (simp add: resendNotification_def Let_def find_doc_n_update_other split: option.splits)

lemma processRetries_loop_other:
  "\<forall>n \<in> set ns. canRetry n \<longrightarrow> n_id n \<noteq> Some i \<Longrightarrow>
   find_doc i (notifications (snd (snd (processRetries_loop provider now ns (ok, ko, st)))))
     = find_doc i (notifications st)"
proof (induction ns arbitrary: ok ko st)
  case Nil
  then show ?case by simp
next
  case (Cons n ns)
  show ?case
  proof (cases "canRetry n")
    case False
    then show ?thesis using Cons by simp
  next
    case True
    show ?thesis
    proof (cases "n_id n")
      case None
      then show ?thesis using Cons True by simp
    next
      case (Some j)
      then have ji: "j \<noteq> i" using Cons.prems True by auto
      obtain r st' where r: "resendNotification provider now j st = (r, st')"
        by (cases "resendNotification provider now j st")
      have "find_doc i (notifications st') = find_doc i (notifications st)"
        using resendNotification_other[OF ji, of provider now st] r by simp
      then show ?thesis using Cons True Some r by simp
    qed
  qed
qed

lemma findForRetry_sound:
  "n \<in> set (findForRetry limit docs) \<Longrightarrow>
   \<exists>d \<in> set docs. n_id d = n_id n \<and> status d = FAILED \<and> retryCount d < maxRetries d"
  by (auto simp: findForRetry_def Notification_new_def dest!: in_set_takeD)

text \<open>
  C2 as stated fails. In scenario E the record stands at \<open>retryCount = 7\<close> with
  \<open>maxRetries = 3\<close> after the three failed resends; the fourth \<open>resendNotification\<close> is
  neither rejected nor a no-op: it calls the provider a fifth time and, the provider
  delivering, returns success and leaves the record SENT.
\<close>

theorem fourth_resend_not_rejected:
  "map retryCount (notifications scenarioE_3) = [7]
   \<and> map maxRetries (notifications scenarioE_3) = [3]
   \<and> calls scenarioE_3 = 4
   \<and> fst (resendNotification fail_four_times 50 ''n1'' scenarioE_3)
       = \<lparr>rr_success = True, rr_error = None\<rparr>
   \<and> map status (notifications (snd (resendNotification fail_four_times 50 ''n1'' scenarioE_3)))
       = [SENT]
   \<and> calls (snd (resendNotification fail_four_times 50 ''n1'' scenarioE_3)) = 5"
  unfolding scenarioE_3_value by (simp add: notification_eval)

text \<open>
  C2, amended. The retry limit is enforced by \<open>processRetries\<close> only. A sweep leaves
  untouched every notification none of whose stored records is FAILED with
  \<open>retryCount < maxRetries\<close>. \<open>resendNotification\<close> has no such check: on a stored EMAIL
  notification it calls the provider once whatever the retry count is, succeeds exactly
  when the provider does, and leaves the record SENT with the count raised by 1, or FAILED
  with the count raised by 2.
\<close>

theorem retry_limit_only_in_processRetries:
  "((\<forall>d \<in> set (notifications st).
        n_id d = Some i \<longrightarrow> \<not> (status d = FAILED \<and> retryCount d < maxRetries d))
      \<longrightarrow> find_doc i (notifications (snd (processRetries provider now st)))
            = find_doc i (notifications st))
   \<and> (n_findById i (notifications st) = Some n \<and> n_type n = EMAIL
      \<longrightarrow> calls (snd (resendNotification provider now i st)) = calls st + 1
        \<and> rr_success (fst (resendNotification provider now i st)) = success (provider (calls st))
        \<and> (\<exists>n'. n_findById i (notifications (snd (resendNotification provider now i st))) = Some n'
              \<and> status n' = (if success (provider (calls st)) then SENT else FAILED)
              \<and> retryCount n'
                  = retryCount n + (if success (provider (calls st)) then 1 else 2)))"
proof (intro conjI impI)
  assume h: "\<forall>d \<in> set (notifications st).
               n_id d = Some i \<longrightarrow> \<not> (status d = FAILED \<and> retryCount d < maxRetries d)"
  have "\<forall>n \<in> set (findForRetry 50 (notifications st)). canRetry n \<longrightarrow> n_id n \<noteq> Some i"
    using h by (metis findForRetry_sound)
  then have "find_doc i (notifications (snd (snd (processRetries_loop provider now
                 (findForRetry 50 (notifications st)) (0, 0, st)))))
               = find_doc i (notifications st)"
    by (rule processRetries_loop_other)
  then show "find_doc i (notifications (snd (processRetries provider now st)))
               = find_doc i (notifications st)"
    by (auto simp add: processRetries_def Let_def split: prod.splits)
next
  assume a: "n_findById i (notifications st) = Some n \<and> n_type n = EMAIL"
  then show "calls (snd (resendNotification provider now i st)) = calls st + 1"
    by (simp add: resendNotification_def Let_def)
  from a show "rr_success (fst (resendNotification provider now i st))
                 = success (provider (calls st))"
    by (simp add: resendNotification_def Let_def)
  let ?n1 = "n\<lparr>status := PENDING, retryCount := retryCount n + 1, updatedAt := Some now\<rparr>"
  have f1: "n_findById i (n_update i ?n1 now (notifications st)) =
      Some (Notification_new (?n1\<lparr>n_id := Some i, updatedAt := Some now\<rparr>))"
    using a by (intro n_findById_n_update) simp
  show "\<exists>n'. n_findById i (notifications (snd (resendNotification provider now i st))) = Some n'
              \<and> status n' = (if success (provider (calls st)) then SENT else FAILED)
              \<and> retryCount n' = retryCount n + (if success (provider (calls st)) then 1 else 2)"
    using a f1
    by (simp add: resendNotification_def Let_def n_findById_n_update markAsFailed_def
          markAsSent_def Notification_new_def)
qed

text \<open>
  The theorem on the state scenario E ends in: the sweep leaves the exhausted record as it
  is, and a direct resend still reaches the provider.
\<close>

theorem retry_limit_only_in_processRetries_witness:
  "map retryCount (notifications scenarioE_3) = [7]
   \<and> map maxRetries (notifications scenarioE_3) = [3]
   \<and> find_doc ''n1'' (notifications (snd (processRetries fail_four_times 50 scenarioE_3)))
       = find_doc ''n1'' (notifications scenarioE_3)
   \<and> (\<exists>n. n_findById ''n1'' (notifications scenarioE_3) = Some n \<and> n_type n = EMAIL
          \<and> retryCount n = 7)
   \<and> calls (snd (resendNotification fail_four_times 50 ''n1'' scenarioE_3))
       = calls scenarioE_3 + 1"
proof -
  let ?n = "the (n_findById ''n1'' (notifications scenarioE_3))"
  have p1: "\<forall>d \<in> set (notifications scenarioE_3).
       n_id d = Some ''n1'' \<longrightarrow> \<not> (status d = FAILED \<and> retryCount d < maxRetries d)"
    unfolding scenarioE_3_value by simp
  have p2: "n_findById ''n1'' (notifications scenarioE_3) = Some ?n \<and> n_type ?n = EMAIL"
    unfolding scenarioE_3_value by (simp add: n_findById_def Notification_new_def)
  have p3: "retryCount ?n = 7"
    unfolding scenarioE_3_value by (simp add: n_findById_def Notification_new_def)
  have p4: "map retryCount (notifications scenarioE_3) = [7]
       \<and> map maxRetries (notifications scenarioE_3) = [3]"
    unfolding scenarioE_3_value by simp
  show ?thesis
    using retry_limit_only_in_processRetries
            [of scenarioE_3 "''n1''" fail_four_times 50 ?n] p1 p2 p3 p4
    by blast
qed

section \<open>Properties of workspace membership and invitations\<close>

lemma w_id_apply_patch [simp]: "w_id (apply_patch p now d) = w_id d"
  by (simp add: apply_patch_def)

lemma w_findById_update_docs:
  "w_findById i (w_update_docs i p now docs) = map_option (apply_patch p now) (w_findById i docs)"
  by (induction docs) auto

lemma w_findById_update_docs_other:
  "j \<noteq> i \<Longrightarrow> w_findById j (w_update_docs i p now docs) = w_findById j docs"
  by (induction docs) auto

lemma w_findById_append_fresh:
  "w_findById i docs = None \<Longrightarrow> w_id d = Some i \<Longrightarrow> w_findById i (docs @ [d]) = Some d"
  by (induction docs) auto

lemma w_update_docs_touch:
  "w_findById i docs = Some ws \<Longrightarrow> apply_patch p now ws = ws\<lparr>w_updatedAt := Some now\<rparr> \<Longrightarrow>
   map (\<lambda>d. d\<lparr>w_updatedAt := None\<rparr>) (w_update_docs i p now docs)
     = map (\<lambda>d. d\<lparr>w_updatedAt := None\<rparr>) docs"
  by (induction docs) (auto split: if_splits)

lemma filter_absent:
  "\<not> list_ex (\<lambda>m. userId m = uid) ms \<Longrightarrow> filter (\<lambda>m. userId m \<noteq> uid) ms = ms"
  by (induction ms) auto


lemma findIndex_Some:
  "findIndex P xs = Some k \<Longrightarrow> k < length xs \<and> find P xs = Some (xs ! k)"
  by (induction xs arbitrary: k) (auto split: if_splits)


lemma find_list_update:
  "findIndex P xs = Some k \<Longrightarrow> P y \<Longrightarrow> find P (xs[k := y]) = Some y"
  by (induction xs arbitrary: k) (auto split: if_splits)

lemma find_None_list_ex: "(find P xs = None) = (\<not> list_ex P xs)"
  by (induction xs) auto

lemma addMember_ok:
  assumes ws: "w_findById wid docs = Some ws"
    and nm: "\<not> list_ex (\<lambda>m. userId m = clerk) (members ws)"
    and ne: "clerk \<noteq> []"
  shows "addMemberByClerkId wid clerk r ib now docs =
     Inr (Some (ws\<lparr>members := members ws @ [\<lparr>userId = clerk, role = r,
              invitedBy = (if ib = [] then None else Some ib), joinedAt = now,
              invitedAt = (if ib = [] then None else Some now)\<rparr>], w_updatedAt := Some now\<rparr>),
          w_update_docs wid \<lparr>patch_members = Some (members ws @ [\<lparr>userId = clerk, role = r,
              invitedBy = (if ib = [] then None else Some ib), joinedAt = now,
              invitedAt = (if ib = [] then None else Some now)\<rparr>]), patch_invites = None\<rparr> now docs)"
  using assms
  by (simp add: addMemberByClerkId_def find_None_list_ex[symmetric] w_update_def Let_def
        w_findById_update_docs apply_patch_def)

lemma accept_commit_ok:
  assumes ws: "w_findById wid docs = Some ws"
    and nm: "\<not> list_ex (\<lambda>m. userId m = clerk) (members ws)"
    and ne: "clerk \<noteq> []"
    and k: "findIndex (\<lambda>inv. token inv = tok) (invites ws) = Some k"
    and inv: "invite = invites ws ! k"
  shows "\<exists>s1 s2. accept_commit wid clerk tok invite now docs = (InviteAccepted, [s1, s2])
     \<and> w_findById wid s1 = Some (ws\<lparr>members := members ws @ [\<lparr>userId = clerk, role = i_role invite,
              invitedBy = (if invitedByClerkId invite = [] then None else Some (invitedByClerkId invite)),
              joinedAt = now,
              invitedAt = (if invitedByClerkId invite = [] then None else Some now)\<rparr>],
                                   w_updatedAt := Some now\<rparr>)
     \<and> w_findById wid s2 = Some (ws\<lparr>members := members ws @ [\<lparr>userId = clerk, role = i_role invite,
              invitedBy = (if invitedByClerkId invite = [] then None else Some (invitedByClerkId invite)),
              joinedAt = now,
              invitedAt = (if invitedByClerkId invite = [] then None else Some now)\<rparr>],
             invites := (invites ws)[k := invite\<lparr>accepted := True, acceptedAt := Some now,
                                      acceptedByClerkId := Some clerk\<rparr>],
             w_updatedAt := Some now\<rparr>)"
  using ws k
  by (simp add: accept_commit_def addMember_ok[OF ws nm ne] Let_def w_findById_update_docs
        apply_patch_def updateInvites_def w_update_def)

lemmas workspace_eval =
  ex_users_def ex_create_def ex_owner_row_def ex_invite_def ex_ws_def ex_bob_row_def
  ex_after_add_def ex_after_accept_def ex_tokens_def ex_mail_ok_def
  createWorkspace_def removeMember_def addMemberByClerkId_def updateInvites_def
  acceptInvite_POST_def accept_checks_def accept_commit_def inviteMultiple_POST_def
  w_create_def w_update_def w_findBySlug_def apply_patch_def findByClerkId_def
  findByEmail_def or_default_def sevenDays_def Let_def

lemma createWorkspace_scenario:
  "createWorkspace ex_create 100 ''w1'' [] =
     Inr (ex_ws\<lparr>invites := [], w_updatedAt := Some 100\<rparr>,
          [ex_ws\<lparr>invites := [], w_updatedAt := Some 100\<rparr>])"
  by (simp add: workspace_eval)

lemma accept_scenario:
  "acceptInvite_POST (Some ''user_2'') ''w1'' ''tok1'' 500 ex_users [ex_ws]
     = (InviteAccepted, [ex_after_add, ex_after_accept])"
  by (simp add: workspace_eval)

lemma invite_scenario:
  "inviteMultiple_POST ex_tokens ex_mail_ok ''user_1'' ''w1'' [''b@x.com''] VIEWER 600
       ex_users ex_after_accept
     = Some (\<lparr>ir_success = [''b@x.com''], ir_failed = []\<rparr>,
             [ex_ws\<lparr>members := [ex_owner_row, ex_bob_row],
                 invites := [ex_invite\<lparr>accepted := True, acceptedAt := Some 500,
                                        acceptedByClerkId := Some ''user_2''\<rparr>,
                             \<lparr>i_id = ''i2'', email = ''b@x.com'', i_role = VIEWER,
                               invitedByClerkId = ''user_1'', token = ''tok2'',
                               expiresAt = 604800600, i_createdAt = 600, accepted = False,
                               acceptedAt = None, acceptedByClerkId = None\<rparr>],
                 w_updatedAt := Some 600\<rparr>])"
  by (simp add: workspace_eval)

text \<open>
  C4 as stated fails. \<open>createWorkspace\<close> writes an explicit member row for the creator:
  creating "Acme" for \<open>user_1\<close> in an empty collection returns, and stores, a workspace
  whose member list is the single row \<open>user_1\<close> with role OWNER.
\<close>

theorem createWorkspace_owner_row_present:
  "createWorkspace ex_create 100 ''w1'' [] =
     Inr (ex_ws\<lparr>invites := [], w_updatedAt := Some 100\<rparr>,
          [ex_ws\<lparr>invites := [], w_updatedAt := Some 100\<rparr>])
   \<and> cw_ownerId ex_create = ''user_1''
   \<and> map userId (members (ex_ws\<lparr>invites := [], w_updatedAt := Some 100\<rparr>)) = [''user_1'']
   \<and> map role (members (ex_ws\<lparr>invites := [], w_updatedAt := Some 100\<rparr>)) = [OWNER]"
  using createWorkspace_scenario by (simp add: ex_ws_def ex_owner_row_def ex_create_def)

text \<open>
  C4, amended. Whenever \<open>createWorkspace\<close> succeeds, the workspace it returns has the
  creator as owner and a member list of exactly one row: the creator, with role OWNER and
  \<open>joinedAt\<close> the time of creation. The stored document has the same member list.
  \<open>newId\<close> is the ObjectId MongoDB generates, hence fresh.
\<close>

theorem createWorkspace_inserts_owner_row:
  assumes ok: "createWorkspace data now newId docs = Inr (w, docs')"
    and fresh: "w_findById newId docs = None"
  shows "members w = [\<lparr>userId = cw_ownerId data, role = OWNER, invitedBy = None,
                        joinedAt = now, invitedAt = None\<rparr>]
       \<and> ownerId w = cw_ownerId data \<and> w_id w = Some newId
       \<and> (\<exists>d. w_findById newId docs' = Some d \<and> members d = members w
               \<and> ownerId d = cw_ownerId data)"
proof -
  have a: "\<And>d. w_id d = Some newId \<Longrightarrow> w_findById newId (docs @ [d]) = Some d"
    using fresh by (rule w_findById_append_fresh)
  show ?thesis
    using ok
    by (auto simp: createWorkspace_def w_create_def w_update_def Let_def
          w_findById_update_docs a apply_patch_def split: option.splits if_splits)
qed

text \<open>
  The theorem at the creation of "Acme".
\<close>

theorem createWorkspace_inserts_owner_row_witness:
  "createWorkspace ex_create 100 ''w1'' [] =
     Inr (ex_ws\<lparr>invites := [], w_updatedAt := Some 100\<rparr>,
          [ex_ws\<lparr>invites := [], w_updatedAt := Some 100\<rparr>])
   \<and> w_findById ''w1'' [] = None
   \<and> members (ex_ws\<lparr>invites := [], w_updatedAt := Some 100\<rparr>)
       = [\<lparr>userId = ''user_1'', role = OWNER, invitedBy = None, joinedAt = 100,
            invitedAt = None\<rparr>]"
proof -
  have o: "cw_ownerId ex_create = ''user_1''"
    by (simp add: ex_create_def)
  have f: "w_findById ''w1'' [] = None"
    by simp
  show ?thesis
    using createWorkspace_inserts_owner_row [OF createWorkspace_scenario f] o
    by (simp add: createWorkspace_scenario)
qed

text \<open>
  C8 as stated fails in its last part. Removing \<open>user_9\<close>, who is neither owner nor
  member of "Acme", succeeds, but it is not free of side effects: the service issues the
  write all the same, and the stored workspace comes out with \<open>updatedAt\<close> moved from 200
  to the time of the call.
\<close>

theorem removeMember_absent_user_still_writes:
  "removeMember ''w1'' ''user_9'' 700 [ex_ws]
     = Inr (Some (ex_ws\<lparr>w_updatedAt := Some 700\<rparr>), [ex_ws\<lparr>w_updatedAt := Some 700\<rparr>])
   \<and> w_updatedAt ex_ws = Some 200
   \<and> [ex_ws\<lparr>w_updatedAt := Some 700\<rparr>] \<noteq> [ex_ws]"
  by (simp add: workspace_eval)

text \<open>
  C8, amended. For a workspace that exists, \<open>removeMember\<close> fails with the owner-removal
  error ("Nao e possivel remover o proprietario do workspace") exactly when the user is
  the owner. Removing a user who is neither the owner nor a member succeeds and returns
  the workspace with its member list, and every other field but \<open>updatedAt\<close>, as they
  were; \<open>updatedAt\<close> becomes the time of the call, and no other document of the collection
  changes. The same call made again on the resulting collection succeeds in the same way.
\<close>

theorem removeMember_owner_forbidden_absent_noop:
  assumes ws: "w_findById wid docs = Some ws"
  shows "((removeMember wid uid now docs = Inl CannotRemoveOwner) = (uid = ownerId ws))
    \<and> (uid \<noteq> ownerId ws \<and> \<not> list_ex (\<lambda>m. userId m = uid) (members ws) \<longrightarrow>
         (\<exists>docs1 docs2.
            removeMember wid uid now docs = Inr (Some (ws\<lparr>w_updatedAt := Some now\<rparr>), docs1)
          \<and> w_findById wid docs1 = Some (ws\<lparr>w_updatedAt := Some now\<rparr>)
          \<and> map (\<lambda>d. d\<lparr>w_updatedAt := None\<rparr>) docs1 = map (\<lambda>d. d\<lparr>w_updatedAt := None\<rparr>) docs
          \<and> removeMember wid uid now' docs1 = Inr (Some (ws\<lparr>w_updatedAt := Some now'\<rparr>), docs2)
          \<and> w_findById wid docs2 = Some (ws\<lparr>w_updatedAt := Some now'\<rparr>)
          \<and> map (\<lambda>d. d\<lparr>w_updatedAt := None\<rparr>) docs2 = map (\<lambda>d. d\<lparr>w_updatedAt := None\<rparr>) docs))"
proof (intro conjI impI)
  show "(removeMember wid uid now docs = Inl CannotRemoveOwner) = (uid = ownerId ws)"
    using ws by (auto simp: removeMember_def)
next
  assume a: "uid \<noteq> ownerId ws \<and> \<not> list_ex (\<lambda>m. userId m = uid) (members ws)"
  define p where "p = \<lparr>patch_members = Some (filter (\<lambda>m. userId m \<noteq> uid) (members ws)), patch_invites = None\<rparr>"
  have pt: "\<And>t. apply_patch p t ws = ws\<lparr>w_updatedAt := Some t\<rparr>"
    using a by (simp add: p_def apply_patch_def filter_absent)
  have pt': "\<And>t t'. apply_patch p t' (ws\<lparr>w_updatedAt := Some t\<rparr>) = ws\<lparr>w_updatedAt := Some t'\<rparr>"
    using a by (simp add: p_def apply_patch_def filter_absent)
  define docs1 where "docs1 = w_update_docs wid p now docs"
  define docs2 where "docs2 = w_update_docs wid p now' docs1"
  have f1: "w_findById wid docs1 = Some (ws\<lparr>w_updatedAt := Some now\<rparr>)"
    using ws pt by (simp add: docs1_def w_findById_update_docs)
  have f2: "w_findById wid docs2 = Some (ws\<lparr>w_updatedAt := Some now'\<rparr>)"
    using f1 pt' by (simp add: docs2_def w_findById_update_docs)
  have m1: "map (\<lambda>d. d\<lparr>w_updatedAt := None\<rparr>) docs1 = map (\<lambda>d. d\<lparr>w_updatedAt := None\<rparr>) docs"
    unfolding docs1_def using ws pt by (rule w_update_docs_touch)
  have "map (\<lambda>d. d\<lparr>w_updatedAt := None\<rparr>) docs2 = map (\<lambda>d. d\<lparr>w_updatedAt := None\<rparr>) docs1"
    unfolding docs2_def using f1 pt' by (intro w_update_docs_touch) auto
  then have m2: "map (\<lambda>d. d\<lparr>w_updatedAt := None\<rparr>) docs2 = map (\<lambda>d. d\<lparr>w_updatedAt := None\<rparr>) docs"
    using m1 by simp
  have r1: "removeMember wid uid now docs = Inr (Some (ws\<lparr>w_updatedAt := Some now\<rparr>), docs1)"
    using ws a f1 by (auto simp add: removeMember_def w_update_def Let_def docs1_def p_def)
  have r2: "removeMember wid uid now' docs1 = Inr (Some (ws\<lparr>w_updatedAt := Some now'\<rparr>), docs2)"
    using f1 a f2 by (auto simp add: removeMember_def w_update_def Let_def docs2_def p_def)
  show "\<exists>docs1 docs2.
            removeMember wid uid now docs = Inr (Some (ws\<lparr>w_updatedAt := Some now\<rparr>), docs1)
          \<and> w_findById wid docs1 = Some (ws\<lparr>w_updatedAt := Some now\<rparr>)
          \<and> map (\<lambda>d. d\<lparr>w_updatedAt := None\<rparr>) docs1 = map (\<lambda>d. d\<lparr>w_updatedAt := None\<rparr>) docs
          \<and> removeMember wid uid now' docs1 = Inr (Some (ws\<lparr>w_updatedAt := Some now'\<rparr>), docs2)
          \<and> w_findById wid docs2 = Some (ws\<lparr>w_updatedAt := Some now'\<rparr>)
          \<and> map (\<lambda>d. d\<lparr>w_updatedAt := None\<rparr>) docs2 = map (\<lambda>d. d\<lparr>w_updatedAt := None\<rparr>) docs"
    using r1 r2 f1 f2 m1 m2 by blast
qed

text \<open>
  The theorem on the workspace "Acme": removing its owner is refused, removing the
  absent \<open>user_9\<close> twice succeeds.
\<close>

theorem removeMember_owner_forbidden_absent_noop_witness:
  "w_findById ''w1'' [ex_ws] = Some ex_ws
   \<and> removeMember ''w1'' ''user_1'' 700 [ex_ws] = Inl CannotRemoveOwner
   \<and> removeMember ''w1'' ''user_9'' 700 [ex_ws] \<noteq> Inl CannotRemoveOwner
   \<and> \<not> list_ex (\<lambda>m. userId m = ''user_9'') (members ex_ws)
   \<and> (\<exists>docs1 docs2.
          removeMember ''w1'' ''user_9'' 700 [ex_ws]
            = Inr (Some (ex_ws\<lparr>w_updatedAt := Some 700\<rparr>), docs1)
        \<and> removeMember ''w1'' ''user_9'' 800 docs1
            = Inr (Some (ex_ws\<lparr>w_updatedAt := Some 800\<rparr>), docs2)
        \<and> w_findById ''w1'' docs2 = Some (ex_ws\<lparr>w_updatedAt := Some 800\<rparr>))"
proof -
  have f: "w_findById ''w1'' [ex_ws] = Some ex_ws"
    by (simp add: ex_ws_def)
  have o: "ownerId ex_ws = ''user_1''"
    by (simp add: ex_ws_def)
  have a: "''user_9'' \<noteq> ownerId ex_ws \<and> \<not> list_ex (\<lambda>m. userId m = ''user_9'') (members ex_ws)"
    by (simp add: ex_ws_def ex_owner_row_def)
  show ?thesis
    using removeMember_owner_forbidden_absent_noop [OF f, of "''user_1''" 700 800]
          removeMember_owner_forbidden_absent_noop [OF f, of "''user_9''" 700 800] f o a
    by auto
qed



text \<open>
  C1 as stated fails. Bob accepting his invite produces two successive states of the
  collection: after the first write Bob is in \<open>members\<close> and the invite still has
  \<open>accepted = False\<close>; only the second write marks it.
\<close>

theorem acceptInvite_member_added_before_invite_marked:
  "acceptInvite_POST (Some ''user_2'') ''w1'' ''tok1'' 500 ex_users [ex_ws]
     = (InviteAccepted, [ex_after_add, ex_after_accept])
   \<and> map (map userId) (map members ex_after_add) = [[''user_1'', ''user_2'']]
   \<and> map (map accepted) (map invites ex_after_add) = [[False]]
   \<and> map (map accepted) (map invites ex_after_accept) = [[True]]"
  using accept_scenario
  by (simp add: ex_after_add_def ex_after_accept_def ex_ws_def ex_owner_row_def ex_bob_row_def
        ex_invite_def)

text \<open>
  C1, amended. A successful acceptance is two separate writes. The first appends the
  member row of the accepting user and leaves the invites as they were, the invite still
  not accepted. The handler then reads the workspace again and the second write stores the
  invite list with the invite marked (\<open>accepted\<close>, \<open>acceptedAt\<close>, \<open>acceptedByClerkId\<close>),
  the members unchanged.
\<close>

theorem acceptInvite_two_separate_writes:
  assumes ok: "acceptInvite_POST auth wid tok now users docs = (InviteAccepted, tr)"
  shows "\<exists>clerk ws invite s1 s2 w1 w2.
           auth = Some clerk \<and> w_findById wid docs = Some ws
         \<and> find (\<lambda>inv. token inv = tok) (invites ws) = Some invite \<and> \<not> accepted invite
         \<and> tr = [s1, s2]
         \<and> w_findById wid s1 = Some w1
         \<and> members w1 = members ws @
              [\<lparr>userId = clerk, role = i_role invite,
                invitedBy = (if invitedByClerkId invite = [] then None
                             else Some (invitedByClerkId invite)),
                joinedAt = now,
                invitedAt = (if invitedByClerkId invite = [] then None else Some now)\<rparr>]
         \<and> invites w1 = invites ws
         \<and> w_findById wid s2 = Some w2
         \<and> members w2 = members w1
         \<and> find (\<lambda>inv. token inv = tok) (invites w2)
             = Some (invite\<lparr>accepted := True, acceptedAt := Some now,
                            acceptedByClerkId := Some clerk\<rparr>)"
proof -
  from ok obtain clerk ws k where
      a: "auth = Some clerk" "clerk \<noteq> []" and ws: "w_findById wid docs = Some ws"
      and k: "findIndex (\<lambda>inv. token inv = tok) (invites ws) = Some k"
      and na: "\<not> accepted (invites ws ! k)"
      and nm: "\<not> list_ex (\<lambda>m. userId m = clerk) (members ws)"
      and c: "accept_commit wid clerk tok (invites ws ! k) now docs = (InviteAccepted, tr)"
    by (auto simp: acceptInvite_POST_def accept_checks_def Let_def
             split: option.splits if_splits)
  let ?invite = "invites ws ! k"
  have f: "find (\<lambda>inv. token inv = tok) (invites ws) = Some ?invite"
    using findIndex_Some[OF k] by simp
  then have tk: "token ?invite = tok"
    by (auto simp: find_Some_iff)
  from accept_commit_ok[OF ws nm a(2) k refl, of now] c
  obtain s1 s2 where tr: "tr = [s1, s2]"
    and s1: "w_findById wid s1 = Some (ws\<lparr>members := members ws @ [\<lparr>userId = clerk, role = i_role ?invite,
              invitedBy = (if invitedByClerkId ?invite = [] then None else Some (invitedByClerkId ?invite)),
              joinedAt = now,
              invitedAt = (if invitedByClerkId ?invite = [] then None else Some now)\<rparr>],
                                   w_updatedAt := Some now\<rparr>)"
    and s2: "w_findById wid s2 = Some (ws\<lparr>members := members ws @ [\<lparr>userId = clerk, role = i_role ?invite,
              invitedBy = (if invitedByClerkId ?invite = [] then None else Some (invitedByClerkId ?invite)),
              joinedAt = now,
              invitedAt = (if invitedByClerkId ?invite = [] then None else Some now)\<rparr>],
             invites := (invites ws)[k := ?invite\<lparr>accepted := True, acceptedAt := Some now,
                                      acceptedByClerkId := Some clerk\<rparr>],
             w_updatedAt := Some now\<rparr>)"
    by auto
  have fu: "find (\<lambda>inv. token inv = tok)
                ((invites ws)[k := ?invite\<lparr>accepted := True, acceptedAt := Some now,
                                      acceptedByClerkId := Some clerk\<rparr>])
              = Some (?invite\<lparr>accepted := True, acceptedAt := Some now,
                                      acceptedByClerkId := Some clerk\<rparr>)"
    using k tk by (intro find_list_update) auto
  let ?w1 = "ws\<lparr>members := members ws @ [\<lparr>userId = clerk, role = i_role ?invite,
              invitedBy = (if invitedByClerkId ?invite = [] then None else Some (invitedByClerkId ?invite)),
              joinedAt = now,
              invitedAt = (if invitedByClerkId ?invite = [] then None else Some now)\<rparr>],
                                   w_updatedAt := Some now\<rparr>"
  let ?w2 = "?w1\<lparr>invites := (invites ws)[k := ?invite\<lparr>accepted := True, acceptedAt := Some now,
                                      acceptedByClerkId := Some clerk\<rparr>]\<rparr>"
  have s2': "w_findById wid s2 = Some ?w2"
    using s2 by simp
  show ?thesis
    apply (rule exI[of _ clerk], rule exI[of _ ws], rule exI[of _ ?invite])
    apply (rule exI[of _ s1], rule exI[of _ s2], rule exI[of _ ?w1], rule exI[of _ ?w2])
    using a(1) ws f na tr s1 s2' fu
    apply simp
    done
qed

text \<open>
  The theorem on Bob's acceptance.
\<close>

theorem acceptInvite_two_separate_writes_witness:
  "acceptInvite_POST (Some ''user_2'') ''w1'' ''tok1'' 500 ex_users [ex_ws]
     = (InviteAccepted, [ex_after_add, ex_after_accept])
   \<and> (\<exists>w1 w2. w_findById ''w1'' ex_after_add = Some w1 \<and> invites w1 = invites ex_ws
           \<and> w_findById ''w1'' ex_after_accept = Some w2 \<and> members w2 = members w1)"
  using acceptInvite_two_separate_writes [OF accept_scenario] accept_scenario
  by (auto simp add: ex_ws_def)

text \<open>
  C7 on the code. Bob (\<open>b@x.com\<close>) joined "Acme" through the acceptance route, so his
  member row carries his Clerk id \<open>user_2\<close>. The invitation route looks the address up,
  finds Bob, and compares the member rows with his internal id \<open>u2\<close>: no row matches, and
  a new invite for an address that already resolves to a member is created and reported
  as a success.
\<close>

theorem invite_for_existing_member_created:
  "findByEmail ''b@x.com'' ex_users
     = Some \<lparr>u_id = Some ''u2'', clerkId = ''user_2'', u_name = ''Bob'', u_email = ''b@x.com''\<rparr>
   \<and> map (map userId) (map members ex_after_accept) = [[''user_1'', ''user_2'']]
   \<and> inviteMultiple_POST ex_tokens ex_mail_ok ''user_1'' ''w1'' [''b@x.com''] VIEWER 600
       ex_users ex_after_accept
     = Some (\<lparr>ir_success = [''b@x.com''], ir_failed = []\<rparr>,
             [ex_ws\<lparr>members := [ex_owner_row, ex_bob_row],
                 invites := [ex_invite\<lparr>accepted := True, acceptedAt := Some 500,
                                        acceptedByClerkId := Some ''user_2''\<rparr>,
                             \<lparr>i_id = ''i2'', email = ''b@x.com'', i_role = VIEWER,
                               invitedByClerkId = ''user_1'', token = ''tok2'',
                               expiresAt = 604800600, i_createdAt = 600, accepted = False,
                               acceptedAt = None, acceptedByClerkId = None\<rparr>],
                 w_updatedAt := Some 600\<rparr>])"
  using invite_scenario
  by (simp add: findByEmail_def ex_users_def ex_after_accept_def ex_ws_def ex_owner_row_def
        ex_bob_row_def)

section \<open>Properties of project visibility and effective members\<close>

lemmas project_eval =
  ex_pm_def ex_project_def set_visibility_def
  updateProject_def getEffectiveMembers_def p_update_def p_findById_def p_findAll_def
  Project_new_def p_apply_patch_def isSlugAvailable_def Let_def

lemma made_public_value:
  "made_public = [ex_project\<lparr>visibility := PUBLIC, p_updatedAt := Some 60\<rparr>]"
  unfolding made_public_def by (simp add: project_eval)


lemma p_id_apply_patch [simp]: "p_id (p_apply_patch p now d) = p_id d"
  by (simp add: p_apply_patch_def)



lemma find_map_None: "(find P (map f xs) = None) = (\<not> list_ex (\<lambda>x. P (f x)) xs)"
  by (induction xs) auto





lemma owner_joined_value:
  "acceptInvite_POST (Some ''user_1'') ''w1'' ''tok0'' 300 ex_users [ex_ws_no_owner_row]
     = (InviteAccepted,
        [[ex_ws_no_owner_row\<lparr>members := [\<lparr>userId = ''user_1'', role = ADMIN,
               invitedBy = Some ''user_1'', joinedAt = 300, invitedAt = Some 300\<rparr>],
             w_updatedAt := Some 300\<rparr>],
         [ex_ws_no_owner_row\<lparr>members := [\<lparr>userId = ''user_1'', role = ADMIN,
               invitedBy = Some ''user_1'', joinedAt = 300, invitedAt = Some 300\<rparr>],
             invites := [\<lparr>i_id = ''i0'', email = ''a@x.com'', i_role = ADMIN,
                   invitedByClerkId = ''user_1'', token = ''tok0'', expiresAt = 604800250,
                   i_createdAt = 250, accepted = True, acceptedAt = Some 300,
                   acceptedByClerkId = Some ''user_1''\<rparr>],
             w_updatedAt := Some 300\<rparr>]])"
  by (simp add: workspace_eval ex_ws_no_owner_row_def)

text \<open>
  C6 as stated fails. Ann owns "Acme"; its member list has no row for her. She accepts an
  invite at role ADMIN, which the acceptance route allows (it finds no member row with
  her Clerk id, and compares the owner id with her internal id), and her row is written
  with role ADMIN. The effective members of the PUBLIC project "Site" are then that row
  alone: the owner appears with role ADMIN, not OWNER.
\<close>

theorem listed_owner_keeps_listed_role:
  "ownerId ex_ws_no_owner_row = ''user_1''
   \<and> fst (acceptInvite_POST (Some ''user_1'') ''w1'' ''tok0'' 300 ex_users [ex_ws_no_owner_row])
       = InviteAccepted
   \<and> map ownerId owner_joined = [''user_1'']
   \<and> getEffectiveMembers ''p1'' 400 made_public owner_joined
       = Inr [\<lparr>pm_userId = ''user_1'', pm_role = ADMIN, addedAt = 300, addedBy = ''user_1''\<rparr>]"
  unfolding owner_joined_def owner_joined_value made_public_value
  by (simp add: project_eval ex_ws_no_owner_row_def)

text \<open>
  C6, amended. For a PRIVATE project \<open>getEffectiveMembers\<close> returns the stored member
  list as it is (empty when none is stored). For a PUBLIC project whose workspace exists
  it returns the rows of \<open>workspace.members\<close> one for one, in order, each with its own
  role, \<open>addedAt\<close> its \<open>joinedAt\<close> and \<open>addedBy\<close> the workspace owner; an entry for the
  owner at role OWNER, with \<open>addedAt\<close> the creation time of the workspace, is put in
  front only when no row carries the owner's id. A listed owner keeps the listed role and
  repeated rows are not removed. A PUBLIC project whose workspace is missing has no
  effective members. The result for a PUBLIC project does not depend on the stored member
  list of the project.
\<close>

theorem getEffectiveMembers_by_visibility:
  assumes d: "p_find_doc pid pdocs = Some d"
  shows "(visibility d = PRIVATE \<longrightarrow>
            getEffectiveMembers pid now pdocs wdocs
              = Inr (case p_members d of None \<Rightarrow> [] | Some m \<Rightarrow> m))
       \<and> (visibility d = PUBLIC \<longrightarrow>
            getEffectiveMembers pid now pdocs wdocs
              = (case w_findById (workspaceId d) wdocs of
                   None \<Rightarrow> Inr []
                 | Some ws \<Rightarrow>
                     Inr ((if list_ex (\<lambda>m. userId m = ownerId ws) (members ws) then []
                           else [\<lparr>pm_userId = ownerId ws, pm_role = OWNER,
                                   addedAt = (case w_createdAt ws of None \<Rightarrow> now | Some t \<Rightarrow> t),
                                   addedBy = ownerId ws\<rparr>])
                          @ map (\<lambda>m. \<lparr>pm_userId = userId m, pm_role = role m,
                                       addedAt = joinedAt m, addedBy = ownerId ws\<rparr>)
                              (members ws))))
       \<and> (visibility d = PUBLIC \<and> p_find_doc pid pdocs' = Some (d\<lparr>p_members := stale\<rparr>) \<longrightarrow>
            getEffectiveMembers pid now pdocs' wdocs = getEffectiveMembers pid now pdocs wdocs)"
proof (intro conjI impI)
  assume "visibility d = PRIVATE"
  then show "getEffectiveMembers pid now pdocs wdocs
              = Inr (case p_members d of None \<Rightarrow> [] | Some m \<Rightarrow> m)"
    using d by (simp add: getEffectiveMembers_def p_findById_def Project_new_def)
next
  assume v: "visibility d = PUBLIC"
  have fe: "\<And>ws :: Workspace. \<not> list_ex (\<lambda>m. userId m = ownerId ws) (members ws) \<Longrightarrow>
               find (\<lambda>m. pm_userId m = ownerId ws)
                 (map (\<lambda>m. \<lparr>pm_userId = userId m, pm_role = role m,
                              addedAt = joinedAt m, addedBy = ownerId ws\<rparr>) (members ws)) = None"
    by (simp add: find_map_None)
  have fs: "\<And>ws :: Workspace. list_ex (\<lambda>m. userId m = ownerId ws) (members ws) \<Longrightarrow>
               \<exists>x. find (\<lambda>m. pm_userId m = ownerId ws)
                 (map (\<lambda>m. \<lparr>pm_userId = userId m, pm_role = role m,
                              addedAt = joinedAt m, addedBy = ownerId ws\<rparr>) (members ws)) = Some x"
  proof -
    fix ws :: Workspace
    assume "list_ex (\<lambda>m. userId m = ownerId ws) (members ws)"
    then have "find (\<lambda>m. pm_userId m = ownerId ws)
                 (map (\<lambda>m. \<lparr>pm_userId = userId m, pm_role = role m,
                              addedAt = joinedAt m, addedBy = ownerId ws\<rparr>) (members ws)) \<noteq> None"
      by (simp add: find_map_None)
    then show "\<exists>x. find (\<lambda>m. pm_userId m = ownerId ws)
                 (map (\<lambda>m. \<lparr>pm_userId = userId m, pm_role = role m,
                              addedAt = joinedAt m, addedBy = ownerId ws\<rparr>) (members ws)) = Some x"
      by blast
  qed
  show "getEffectiveMembers pid now pdocs wdocs
              = (case w_findById (workspaceId d) wdocs of
                   None \<Rightarrow> Inr []
                 | Some ws \<Rightarrow>
                     Inr ((if list_ex (\<lambda>m. userId m = ownerId ws) (members ws) then []
                           else [\<lparr>pm_userId = ownerId ws, pm_role = OWNER,
                                   addedAt = (case w_createdAt ws of None \<Rightarrow> now | Some t \<Rightarrow> t),
                                   addedBy = ownerId ws\<rparr>])
                          @ map (\<lambda>m. \<lparr>pm_userId = userId m, pm_role = role m,
                                       addedAt = joinedAt m, addedBy = ownerId ws\<rparr>)
                              (members ws)))"
  proof (cases "w_findById (workspaceId d) wdocs")
    case None
    then show ?thesis
      using d v by (simp add: getEffectiveMembers_def p_findById_def Project_new_def)
  next
    case (Some ws)
    show ?thesis
    proof (cases "list_ex (\<lambda>m. userId m = ownerId ws) (members ws)")
      case True
      from fs[OF True] obtain x where "find (\<lambda>m. pm_userId m = ownerId ws)
                 (map (\<lambda>m. \<lparr>pm_userId = userId m, pm_role = role m,
                              addedAt = joinedAt m, addedBy = ownerId ws\<rparr>) (members ws)) = Some x"
        by blast
      then show ?thesis
        using d v Some True
        by (simp add: getEffectiveMembers_def p_findById_def Project_new_def Let_def)
    next
      case False
      then show ?thesis
        using d v Some fe[OF False]
        by (simp add: getEffectiveMembers_def p_findById_def Project_new_def Let_def)
    qed
  qed
next
  assume "visibility d = PUBLIC \<and> p_find_doc pid pdocs' = Some (d\<lparr>p_members := stale\<rparr>)"
  then show "getEffectiveMembers pid now pdocs' wdocs = getEffectiveMembers pid now pdocs wdocs"
    using d by (simp add: getEffectiveMembers_def p_findById_def Project_new_def)
qed

text \<open>
  The theorem on "Site": PRIVATE, its roster; PUBLIC under "Acme" with Ann's owner row
  and Bob, both rows; the same with the stored roster erased.
\<close>

theorem getEffectiveMembers_by_visibility_witness:
  "p_find_doc ''p1'' made_public = Some (ex_project\<lparr>visibility := PUBLIC, p_updatedAt := Some 60\<rparr>)
   \<and> p_find_doc ''p1'' [ex_project] = Some ex_project
   \<and> getEffectiveMembers ''p1'' 400 [ex_project] ex_after_accept = Inr [ex_pm]
   \<and> getEffectiveMembers ''p1'' 400 made_public ex_after_accept
       = Inr [\<lparr>pm_userId = ''user_1'', pm_role = OWNER, addedAt = 100, addedBy = ''user_1''\<rparr>,
              \<lparr>pm_userId = ''user_2'', pm_role = EDITOR, addedAt = 500, addedBy = ''user_1''\<rparr>]
   \<and> getEffectiveMembers ''p1'' 400
         [ex_project\<lparr>visibility := PUBLIC, p_updatedAt := Some 60, p_members := None\<rparr>]
         ex_after_accept
       = getEffectiveMembers ''p1'' 400 made_public ex_after_accept"
proof -
  let ?d = "ex_project\<lparr>visibility := PUBLIC, p_updatedAt := Some 60\<rparr>"
  let ?w = "ex_ws\<lparr>members := [ex_owner_row, ex_bob_row],
                    invites := [ex_invite\<lparr>accepted := True, acceptedAt := Some 500,
                                          acceptedByClerkId := Some ''user_2''\<rparr>],
                    w_updatedAt := Some 500\<rparr>"
  have f1: "p_find_doc ''p1'' made_public = Some ?d"
    unfolding made_public_value by (simp add: ex_project_def)
  have f2: "p_find_doc ''p1'' [ex_project] = Some ex_project"
    by (simp add: ex_project_def)
  have f3: "p_find_doc ''p1'' [?d\<lparr>p_members := None\<rparr>] = Some (?d\<lparr>p_members := None\<rparr>)"
    by (simp add: ex_project_def)
  have v1: "visibility ?d = PUBLIC" and v2: "visibility ex_project = PRIVATE"
    and v3: "workspaceId ?d = ''w1''" and v4: "p_members ex_project = Some [ex_pm]"
    by (simp_all add: ex_project_def)
  have w: "w_findById ''w1'' ex_after_accept = Some ?w"
    by (simp add: ex_after_accept_def ex_ws_def)
  have a: "getEffectiveMembers ''p1'' 400 [ex_project] ex_after_accept = Inr [ex_pm]"
    using getEffectiveMembers_by_visibility [OF f2, of 400 ex_after_accept] v2 v4 by simp
  have b: "getEffectiveMembers ''p1'' 400 made_public ex_after_accept
       = Inr [\<lparr>pm_userId = ''user_1'', pm_role = OWNER, addedAt = 100, addedBy = ''user_1''\<rparr>,
              \<lparr>pm_userId = ''user_2'', pm_role = EDITOR, addedAt = 500, addedBy = ''user_1''\<rparr>]"
    using getEffectiveMembers_by_visibility [OF f1, of 400 ex_after_accept] v1
    by (simp add: v3 w ex_ws_def ex_owner_row_def ex_bob_row_def)
  have c: "getEffectiveMembers ''p1'' 400 [?d\<lparr>p_members := None\<rparr>] ex_after_accept
       = getEffectiveMembers ''p1'' 400 made_public ex_after_accept"
    using getEffectiveMembers_by_visibility
            [OF f1, of 400 ex_after_accept "[?d\<lparr>p_members := None\<rparr>]" None] v1 f3
    by blast
  show ?thesis
    using a b c f1 f2 by simp
qed

end
